theory Spec2Isabelle
  imports Main
begin

section \<open>Python values and the operations the program applies to them\<close>

text \<open>
  The program (\<^verbatim>\<open>genai_perf/llm_inputs/llm_inputs.py\<close>, class \<^verbatim>\<open>LlmInputs\<close>) works on
  parsed JSON throughout: the raw dataset, the generic dataset and the output in the
  format of the performance analyzer are Python dictionaries and lists. A dictionary
  keeps its keys in insertion order, so an object is an association list. A string is
  the list of its characters, each a code point below 256; numbers are integers.
\<close>

datatype json =
    JNull
  | JBool bool
  | JInt int
  | JStr string
  | JArr "json list"
  | JObj "(string \<times> json) list"

text \<open>
  Every exception the program can raise is a value. \<^verbatim>\<open>GenAIPerfException(x)\<close> keeps its
  argument \<open>x\<close>: an object (a message is a string), or the exception it was raised
  from (\<^verbatim>\<open>except Exception as e: raise GenAIPerfException(e)\<close>). The others are the
  built-in exceptions of Python's subscripts and method calls. \<open>Unmodelled\<close> marks the
  one operation this development does not define, storing under an integer key of a
  dictionary; the program never reaches it, since it indexes only lists it has built.
\<close>

datatype error =
    GenAIPerfException exception_arg
  | KeyError json
  | IndexError
  | TypeError
  | AttributeError
  | JSONDecodeError
  | Unmodelled
and exception_arg =
    Arg json
  | Cause error

type_synonym 'a result = "error + 'a"

definition and_then :: "'a result \<Rightarrow> ('a \<Rightarrow> 'b result) \<Rightarrow> 'b result" where
  "and_then m f = (case m of Inl e \<Rightarrow> Inl e | Inr x \<Rightarrow> f x)"

text \<open>A \<^verbatim>\<open>for\<close> loop over a list that threads the mutated object and stops at the
  first exception.\<close>

fun for_each :: "('a \<Rightarrow> 's \<Rightarrow> 's result) \<Rightarrow> 'a list \<Rightarrow> 's \<Rightarrow> 's result" where
  "for_each body [] s = Inr s"
| "for_each body (x # xs) s = and_then (body x s) (for_each body xs)"

text \<open>Truth value of an object in a condition (\<^verbatim>\<open>if x:\<close>, \<^verbatim>\<open>if not x:\<close>).\<close>

fun truthy :: "json \<Rightarrow> bool" where
  "truthy JNull = False"
| "truthy (JBool b) = b"
| "truthy (JInt n) = (n \<noteq> 0)"
| "truthy (JStr s) = (s \<noteq> [])"
| "truthy (JArr xs) = (xs \<noteq> [])"
| "truthy (JObj kvs) = (kvs \<noteq> [])"

text \<open>\<^verbatim>\<open>d[k] = v\<close> on a dictionary: an existing key keeps its place, a new key goes last.\<close>

fun dict_store :: "string \<Rightarrow> json \<Rightarrow> (string \<times> json) list \<Rightarrow> (string \<times> json) list" where
  "dict_store k v [] = [(k, v)]"
| "dict_store k v (p # ps) = (if fst p = k then (k, v) # ps else p # dict_store k v ps)"

text \<open>\<^verbatim>\<open>x[k]\<close> with a string key \<open>k\<close>.\<close>

fun get_item :: "string \<Rightarrow> json \<Rightarrow> json result" where
  "get_item k (JObj kvs) =
     (case map_of kvs k of None \<Rightarrow> Inl (KeyError (JStr k)) | Some v \<Rightarrow> Inr v)"
| "get_item k _ = Inl TypeError"

text \<open>\<^verbatim>\<open>x[k] = v\<close> with a string key \<open>k\<close>.\<close>

fun set_item :: "string \<Rightarrow> json \<Rightarrow> json \<Rightarrow> json result" where
  "set_item k v (JObj kvs) = Inr (JObj (dict_store k v kvs))"
| "set_item k v _ = Inl TypeError"

text \<open>\<^verbatim>\<open>x[i]\<close> with an index \<open>i \<ge> 0\<close> (the program only uses \<^verbatim>\<open>0\<close> and the counter of
  \<^verbatim>\<open>enumerate\<close>).\<close>

fun get_index :: "nat \<Rightarrow> json \<Rightarrow> json result" where
  "get_index i (JArr xs) = (if i < length xs then Inr (xs ! i) else Inl IndexError)"
| "get_index i (JStr s) = (if i < length s then Inr (JStr [s ! i]) else Inl IndexError)"
| "get_index i (JObj kvs) = Inl (KeyError (JInt (int i)))"
| "get_index i _ = Inl TypeError"

text \<open>\<^verbatim>\<open>x[i] = v\<close> with an index \<open>i \<ge> 0\<close>. On a dictionary Python would add the integer
  key \<open>i\<close>; objects here have string keys only, so that case is outside the model.\<close>

fun set_index :: "nat \<Rightarrow> json \<Rightarrow> json \<Rightarrow> json result" where
  "set_index i v (JArr xs) = (if i < length xs then Inr (JArr (xs[i := v])) else Inl IndexError)"
| "set_index i v (JObj kvs) = Inl Unmodelled"
| "set_index i v _ = Inl TypeError"

text \<open>\<^verbatim>\<open>x.append(v)\<close>.\<close>

fun append_to :: "json \<Rightarrow> json \<Rightarrow> json result" where
  "append_to v (JArr xs) = Inr (JArr (xs @ [v]))"
| "append_to v _ = Inl AttributeError"

text \<open>
  The program mutates nested objects in place, as in
  \<^verbatim>\<open>pa_json["data"][index]["payload"][0]["messages"].append(m)\<close>: each subscript reads a
  reference and the last operation changes the object it refers to. No object of the
  output is reachable by two paths (the empty output is a deep copy, every payload is a
  fresh literal), so the mutation is the functional update along the path: read the
  component, change it, store it back under the same key or index.
\<close>

definition in_item :: "string \<Rightarrow> (json \<Rightarrow> json result) \<Rightarrow> json \<Rightarrow> json result" where
  "in_item k f x = and_then (get_item k x) (\<lambda>c. and_then (f c) (\<lambda>c'. set_item k c' x))"

definition in_index :: "nat \<Rightarrow> (json \<Rightarrow> json result) \<Rightarrow> json \<Rightarrow> json result" where
  "in_index i f x = and_then (get_index i x) (\<lambda>c. and_then (f c) (\<lambda>c'. set_index i c' x))"

text \<open>Iterating over an object (\<^verbatim>\<open>for x in obj\<close>, \<^verbatim>\<open>enumerate(obj)\<close>): a list gives its
  elements, a dictionary its keys, a string its characters.\<close>

fun iterate :: "json \<Rightarrow> json list result" where
  "iterate (JArr xs) = Inr xs"
| "iterate (JObj kvs) = Inr (map (\<lambda>p. JStr (fst p)) kvs)"
| "iterate (JStr s) = Inr (map (\<lambda>c. JStr [c]) s)"
| "iterate _ = Inl TypeError"

text \<open>\<^verbatim>\<open>entry.items()\<close> and \<^verbatim>\<open>k in d.keys()\<close>.\<close>

fun items :: "json \<Rightarrow> (string \<times> json) list result" where
  "items (JObj kvs) = Inr kvs"
| "items _ = Inl AttributeError"

fun has_key :: "string \<Rightarrow> json \<Rightarrow> bool result" where
  "has_key k (JObj kvs) = Inr (k \<in> fst ` set kvs)"
| "has_key k _ = Inl AttributeError"

text \<open>\<^verbatim>\<open>str(n)\<close> for an integer.\<close>

fun str_nat :: "nat \<Rightarrow> string" where
  "str_nat n =
     (if n < 10 then [''0123456789'' ! n]
      else str_nat (n div 10) @ [''0123456789'' ! (n mod 10)])"

definition str_int :: "int \<Rightarrow> string" where
  "str_int i = (if i < 0 then CHR ''-'' # str_nat (nat (- i)) else str_nat (nat i))"

text \<open>
  \<^verbatim>\<open>repr(x)\<close>. A string is put in single quotes, or in double quotes when it contains a
  single quote and no double quote; the quote in use and the backslash are escaped, tab,
  newline and carriage return are written \<^verbatim>\<open>\t\<close>, \<^verbatim>\<open>\n\<close>, \<^verbatim>\<open>\r\<close>, and a character that
  is not printable as \<^verbatim>\<open>\xhh\<close>. A character is a code point below 256; of these the
  control characters, the no-break space and the soft hyphen are not printable.
\<close>

definition hex_digit :: "nat \<Rightarrow> char" where
  "hex_digit n = ''0123456789abcdef'' ! n"

definition repr_char :: "char \<Rightarrow> char \<Rightarrow> string" where
  "repr_char quote c =
     (let n = (of_char c :: nat) in
      if c = quote \<or> c = CHR 0x5C then [CHR 0x5C, c]
      else if c = CHR 0x09 then [CHR 0x5C, CHR ''t'']
      else if c = CHR 0x0A then [CHR 0x5C, CHR ''n'']
      else if c = CHR 0x0D then [CHR 0x5C, CHR ''r'']
      else if n < 32 \<or> n = 127 \<or> (128 \<le> n \<and> n \<le> 160) \<or> n = 173 then
        [CHR 0x5C, CHR ''x'', hex_digit (n div 16), hex_digit (n mod 16)]
      else [c])"

definition repr_str :: "string \<Rightarrow> string" where
  "repr_str s =
     (let quote = (if CHR 0x27 \<in> set s \<and> CHR 0x22 \<notin> set s then CHR 0x22 else CHR 0x27)
      in quote # concat (map (repr_char quote) s) @ [quote])"

fun join :: "string \<Rightarrow> string list \<Rightarrow> string" where
  "join sep [] = []"
| "join sep [x] = x"
| "join sep (x # y # ys) = x @ sep @ join sep (y # ys)"

fun repr :: "json \<Rightarrow> string" where
  "repr JNull = ''None''"
| "repr (JBool b) = (if b then ''True'' else ''False'')"
| "repr (JInt n) = str_int n"
| "repr (JStr s) = repr_str s"
| "repr (JArr xs) = ''['' @ join '', '' (map repr xs) @ '']''"
| "repr (JObj kvs) =
     ''{'' @ join '', '' (map (\<lambda>p. repr_str (fst p) @ '': '' @ repr (snd p)) kvs) @ ''}''"

text \<open>The text an f-string puts for \<^verbatim>\<open>{x}\<close>: \<^verbatim>\<open>str(x)\<close>, which is the string itself for a
  string and \<^verbatim>\<open>repr(x)\<close> for the other objects. It never raises on these objects.\<close>

fun format_value :: "json \<Rightarrow> string result" where
  "format_value (JStr s) = Inr s"
| "format_value (JInt n) = Inr (str_int n)"
| "format_value (JBool b) = Inr (if b then ''True'' else ''False'')"
| "format_value JNull = Inr ''None''"
| "format_value (JArr xs) = Inr (repr (JArr xs))"
| "format_value (JObj kvs) = Inr (repr (JObj kvs))"

section \<open>The chat message of one dataset column\<close>

text \<open>\<^verbatim>\<open>_create_new_openai_chat_completions_message\<close>. The role lists hold the features
  that role classification selected; \<^verbatim>\<open>header in system_role_headers\<close> compares the key
  with their elements.\<close>

definition create_new_openai_chat_completions_message ::
  "string \<Rightarrow> json list \<Rightarrow> json list \<Rightarrow> json \<Rightarrow> json" where
  "create_new_openai_chat_completions_message header system_role_headers user_role_headers content =
     (if \<not> truthy content then JObj []
      else if JStr header \<in> set system_role_headers then
        JObj [(''role'', JStr ''system''), (''content'', content)]
      else if JStr header \<in> set user_role_headers then
        JObj [(''role'', JStr ''user''), (''content'', content)]
      else JObj [])"

section \<open>Role classification\<close>

text \<open>\<^verbatim>\<open>_determine_json_feature_roles\<close>. The three vocabularies are local constants of
  the function. One pass of the loop tests the feature against each of them, and a
  feature of \<^verbatim>\<open>TEXT_INPUT_LIST\<close> is appended to \<^verbatim>\<open>user_role_headers\<close>. The closing
  \<^verbatim>\<open>assert\<close> asks that one of the three lists is not \<^verbatim>\<open>None\<close>; they are lists, so it
  never fails and has no branch here.\<close>

definition SYSTEM_ROLE_LIST :: "json list" where
  "SYSTEM_ROLE_LIST = [JStr ''system_prompt'']"

definition USER_ROLE_LIST :: "json list" where
  "USER_ROLE_LIST = [JStr ''question'', JStr ''article'']"

definition TEXT_INPUT_LIST :: "json list" where
  "TEXT_INPUT_LIST = [JStr ''text_input'']"

definition classify_feature ::
  "json \<Rightarrow> json list \<times> json list \<times> json list \<Rightarrow> json list \<times> json list \<times> json list" where
  "classify_feature feature hs =
     (case hs of (system_role_headers, user_role_headers, text_input_headers) \<Rightarrow>
        let system_role_headers =
              (if feature \<in> set SYSTEM_ROLE_LIST then system_role_headers @ [feature]
               else system_role_headers);
            user_role_headers =
              (if feature \<in> set USER_ROLE_LIST then user_role_headers @ [feature]
               else user_role_headers);
            user_role_headers =
              (if feature \<in> set TEXT_INPUT_LIST then user_role_headers @ [feature]
               else user_role_headers)
        in (system_role_headers, user_role_headers, text_input_headers))"

definition determine_json_feature_roles ::
  "json \<Rightarrow> (json list \<times> json list \<times> json list) result" where
  "determine_json_feature_roles dataset_json =
     and_then (has_key ''features'' dataset_json) (\<lambda>present.
       if present then
         and_then (get_item ''features'' dataset_json) (\<lambda>fs.
         and_then (iterate fs) (\<lambda>features.
           Inr (fold classify_feature features ([], [], []))))
       else Inr ([], [], []))"

section \<open>The four formatters\<close>

subsection \<open>OpenAI chat completions\<close>

definition create_empty_openai_pa_json :: json where
  "create_empty_openai_pa_json = JObj [(''data'', JArr [])]"

definition add_new_message_to_json :: "json \<Rightarrow> nat \<Rightarrow> json \<Rightarrow> json result" where
  "add_new_message_to_json pa_json index new_message =
     (if truthy new_message then
        in_item ''data'' (in_index index (in_item ''payload'' (in_index 0
          (in_item ''messages'' (append_to new_message))))) pa_json
      else Inr pa_json)"

definition add_optional_tags_to_openai_json ::
  "json \<Rightarrow> nat \<Rightarrow> bool \<Rightarrow> bool \<Rightarrow> string \<Rightarrow> json result" where
  "add_optional_tags_to_openai_json pa_json index add_model_name add_stream model_name =
     and_then
       (if add_model_name then
          in_item ''data'' (in_index index (in_item ''payload'' (in_index 0
            (set_item ''model'' (JStr model_name))))) pa_json
        else Inr pa_json)
       (\<lambda>pa_json.
          if add_stream then
            in_item ''data'' (in_index index (in_item ''payload'' (in_index 0
              (set_item ''stream'' (JBool True))))) pa_json
          else Inr pa_json)"

text \<open>The body of the loop over \<^verbatim>\<open>enumerate(dataset_json["rows"])\<close>.\<close>

definition openai_chat_completions_entry ::
  "json list \<Rightarrow> json list \<Rightarrow> bool \<Rightarrow> bool \<Rightarrow> string \<Rightarrow> nat \<times> json \<Rightarrow> json \<Rightarrow> json result" where
  "openai_chat_completions_entry system_role_headers user_role_headers add_model_name add_stream
       model_name ie pa_json =
     (case ie of (index, entry) \<Rightarrow>
        and_then (in_item ''data'' (append_to (JObj [(''payload'', JArr [])])) pa_json) (\<lambda>pa_json.
        and_then (in_item ''data'' (in_index index (in_item ''payload''
                    (append_to (JObj [(''messages'', JArr [])])))) pa_json) (\<lambda>pa_json.
        and_then (items entry) (\<lambda>kvs.
        and_then (for_each (\<lambda>hc pa_json. case hc of (header, content) \<Rightarrow>
                      add_new_message_to_json pa_json index
                        (create_new_openai_chat_completions_message header system_role_headers
                           user_role_headers content)) kvs pa_json) (\<lambda>pa_json.
        add_optional_tags_to_openai_json pa_json index add_model_name add_stream model_name)))))"

definition populate_openai_chat_completions_output_json ::
  "json \<Rightarrow> json list \<Rightarrow> json list \<Rightarrow> bool \<Rightarrow> bool \<Rightarrow> string \<Rightarrow> json result" where
  "populate_openai_chat_completions_output_json dataset_json system_role_headers user_role_headers
       add_model_name add_stream model_name =
     and_then (get_item ''rows'' dataset_json) (\<lambda>rows.
     and_then (iterate rows) (\<lambda>entries.
       for_each (openai_chat_completions_entry system_role_headers user_role_headers
                   add_model_name add_stream model_name)
         (enumerate 0 entries) create_empty_openai_pa_json))"

definition convert_generic_json_to_openai_chat_completions_format ::
  "json \<Rightarrow> bool \<Rightarrow> bool \<Rightarrow> string \<Rightarrow> json result" where
  "convert_generic_json_to_openai_chat_completions_format dataset_json add_model_name add_stream
       model_name =
     and_then (determine_json_feature_roles dataset_json) (\<lambda>roles.
       case roles of (system_role_headers, user_role_headers, _) \<Rightarrow>
         populate_openai_chat_completions_output_json dataset_json system_role_headers
           user_role_headers add_model_name add_stream model_name)"

subsection \<open>OpenAI completions\<close>

text \<open>\<^verbatim>\<open>_create_new_prompt\<close> and \<^verbatim>\<open>_create_new_text_input\<close> have the same body.\<close>

definition create_new_prompt ::
  "string \<Rightarrow> json list \<Rightarrow> json list \<Rightarrow> json list \<Rightarrow> json \<Rightarrow> json" where
  "create_new_prompt header system_role_headers user_role_headers text_input_headers content =
     (if JStr header \<in> set system_role_headers \<or> JStr header \<in> set user_role_headers
         \<or> JStr header \<in> set text_input_headers
      then content else JStr [])"

definition create_new_text_input ::
  "string \<Rightarrow> json list \<Rightarrow> json list \<Rightarrow> json list \<Rightarrow> json \<Rightarrow> json" where
  "create_new_text_input header system_role_headers user_role_headers text_input_headers content =
     (if JStr header \<in> set system_role_headers \<or> JStr header \<in> set user_role_headers
         \<or> JStr header \<in> set text_input_headers
      then content else JStr [])"

text \<open>\<^verbatim>\<open>a + f" {b}"\<close>: the left operand is read first, the f-string is formatted, and the
  sum is defined when the left operand is a string.\<close>

definition plus_space_formatted :: "json \<Rightarrow> json \<Rightarrow> json result" where
  "plus_space_formatted a b =
     (case a of
        JStr s \<Rightarrow> and_then (format_value b) (\<lambda>t. Inr (JStr (s @ '' '' @ t)))
      | _ \<Rightarrow> Inl TypeError)"

definition add_new_prompt_to_json :: "json \<Rightarrow> nat \<Rightarrow> json \<Rightarrow> json result" where
  "add_new_prompt_to_json pa_json index new_prompt =
     (let prompt0 = (\<lambda>pa_json.
            and_then (get_item ''data'' pa_json) (\<lambda>d. and_then (get_index index d) (\<lambda>p.
            and_then (get_item ''payload'' p) (\<lambda>pl. and_then (get_index 0 pl) (\<lambda>p0.
            and_then (get_item ''prompt'' p0) (get_index 0))))));
          store = (\<lambda>v. in_item ''data'' (in_index index (in_item ''payload'' (in_index 0
                          (in_item ''prompt'' (set_index 0 v))))))
      in if truthy new_prompt then
           and_then (prompt0 pa_json) (\<lambda>current.
             if truthy current then
               and_then (prompt0 pa_json) (\<lambda>left.
               and_then (plus_space_formatted left new_prompt) (\<lambda>v. store v pa_json))
             else store new_prompt pa_json)
         else Inr pa_json)"

definition openai_completions_entry ::
  "json list \<Rightarrow> json list \<Rightarrow> json list \<Rightarrow> bool \<Rightarrow> bool \<Rightarrow> string \<Rightarrow> nat \<times> json \<Rightarrow> json
     \<Rightarrow> json result" where
  "openai_completions_entry system_role_headers user_role_headers text_input_headers
       add_model_name add_stream model_name ie pa_json =
     (case ie of (index, entry) \<Rightarrow>
        and_then (in_item ''data'' (append_to (JObj [(''payload'', JArr [])])) pa_json) (\<lambda>pa_json.
        and_then (in_item ''data'' (in_index index (in_item ''payload''
                    (append_to (JObj [(''prompt'', JArr [JStr []])])))) pa_json) (\<lambda>pa_json.
        and_then (items entry) (\<lambda>kvs.
        and_then (for_each (\<lambda>hc pa_json. case hc of (header, content) \<Rightarrow>
                      add_new_prompt_to_json pa_json index
                        (create_new_prompt header system_role_headers user_role_headers
                           text_input_headers content)) kvs pa_json) (\<lambda>pa_json.
        add_optional_tags_to_openai_json pa_json index add_model_name add_stream model_name)))))"

definition populate_openai_completions_output_json ::
  "json \<Rightarrow> json list \<Rightarrow> json list \<Rightarrow> json list \<Rightarrow> bool \<Rightarrow> bool \<Rightarrow> string \<Rightarrow> json result" where
  "populate_openai_completions_output_json dataset_json system_role_headers user_role_headers
       text_input_headers add_model_name add_stream model_name =
     and_then (get_item ''rows'' dataset_json) (\<lambda>rows.
     and_then (iterate rows) (\<lambda>entries.
       for_each (openai_completions_entry system_role_headers user_role_headers
                   text_input_headers add_model_name add_stream model_name)
         (enumerate 0 entries) create_empty_openai_pa_json))"

definition convert_generic_json_to_openai_completions_format ::
  "json \<Rightarrow> bool \<Rightarrow> bool \<Rightarrow> string \<Rightarrow> json result" where
  "convert_generic_json_to_openai_completions_format dataset_json add_model_name add_stream
       model_name =
     and_then (determine_json_feature_roles dataset_json) (\<lambda>roles.
       case roles of (system_role_headers, user_role_headers, text_input_headers) \<Rightarrow>
         populate_openai_completions_output_json dataset_json system_role_headers
           user_role_headers text_input_headers add_model_name add_stream model_name)"

subsection \<open>VLLM\<close>

definition create_empty_vllm_pa_json :: json where
  "create_empty_vllm_pa_json = JObj [(''data'', JArr [])]"

definition add_new_text_input_to_json :: "json \<Rightarrow> nat \<Rightarrow> json \<Rightarrow> json result" where
  "add_new_text_input_to_json pa_json index new_text_input =
     (let text_input0 = (\<lambda>pa_json.
            and_then (get_item ''data'' pa_json) (\<lambda>d. and_then (get_index index d) (\<lambda>p.
            and_then (get_item ''text_input'' p) (get_index 0))));
          store = (\<lambda>v. in_item ''data'' (in_index index
                          (in_item ''text_input'' (set_index 0 v))))
      in if truthy new_text_input then
           and_then (text_input0 pa_json) (\<lambda>current.
             if truthy current then
               and_then (text_input0 pa_json) (\<lambda>left.
               and_then (plus_space_formatted left new_text_input) (\<lambda>v. store v pa_json))
             else store new_text_input pa_json)
         else Inr pa_json)"

definition add_optional_tags_to_vllm_json ::
  "json \<Rightarrow> nat \<Rightarrow> bool \<Rightarrow> bool \<Rightarrow> string \<Rightarrow> json result" where
  "add_optional_tags_to_vllm_json pa_json index add_model_name add_stream model_name =
     and_then
       (if add_model_name then
          in_item ''data'' (in_index index (set_item ''model'' (JStr model_name))) pa_json
        else Inr pa_json)
       (\<lambda>pa_json.
          if add_stream then
            in_item ''data'' (in_index index (set_item ''stream'' (JArr [JBool True]))) pa_json
          else Inr pa_json)"

definition vllm_entry ::
  "json list \<Rightarrow> json list \<Rightarrow> json list \<Rightarrow> bool \<Rightarrow> bool \<Rightarrow> string \<Rightarrow> nat \<times> json \<Rightarrow> json
     \<Rightarrow> json result" where
  "vllm_entry system_role_headers user_role_headers text_input_headers add_model_name add_stream
       model_name ie pa_json =
     (case ie of (index, entry) \<Rightarrow>
        and_then (in_item ''data'' (append_to (JObj [(''text_input'', JArr [JStr []])])) pa_json)
          (\<lambda>pa_json.
        and_then (items entry) (\<lambda>kvs.
        and_then (for_each (\<lambda>hc pa_json. case hc of (header, content) \<Rightarrow>
                      add_new_text_input_to_json pa_json index
                        (create_new_text_input header system_role_headers user_role_headers
                           text_input_headers content)) kvs pa_json) (\<lambda>pa_json.
        add_optional_tags_to_vllm_json pa_json index add_model_name add_stream model_name))))"

definition populate_vllm_output_json ::
  "json \<Rightarrow> json list \<Rightarrow> json list \<Rightarrow> json list \<Rightarrow> bool \<Rightarrow> bool \<Rightarrow> string \<Rightarrow> json result" where
  "populate_vllm_output_json dataset_json system_role_headers user_role_headers
       text_input_headers add_model_name add_stream model_name =
     and_then (get_item ''rows'' dataset_json) (\<lambda>rows.
     and_then (iterate rows) (\<lambda>entries.
       for_each (vllm_entry system_role_headers user_role_headers text_input_headers
                   add_model_name add_stream model_name)
         (enumerate 0 entries) create_empty_vllm_pa_json))"

definition convert_generic_json_to_vllm_format ::
  "json \<Rightarrow> bool \<Rightarrow> bool \<Rightarrow> string \<Rightarrow> json result" where
  "convert_generic_json_to_vllm_format dataset_json add_model_name add_stream model_name =
     and_then (determine_json_feature_roles dataset_json) (\<lambda>roles.
       case roles of (system_role_headers, user_role_headers, text_input_headers) \<Rightarrow>
         populate_vllm_output_json dataset_json system_role_headers user_role_headers
           text_input_headers add_model_name add_stream model_name)"

subsection \<open>TRT-LLM\<close>

definition DEFAULT_TRTLLM_MAX_TOKENS :: int where
  "DEFAULT_TRTLLM_MAX_TOKENS = 256"

definition create_empty_trtllm_pa_json :: json where
  "create_empty_trtllm_pa_json = JObj [(''data'', JArr [])]"

definition add_optional_tags_to_trtllm_json ::
  "json \<Rightarrow> nat \<Rightarrow> bool \<Rightarrow> bool \<Rightarrow> string \<Rightarrow> json result" where
  "add_optional_tags_to_trtllm_json pa_json index add_model_name add_stream model_name =
     and_then
       (if add_model_name then
          in_item ''data'' (in_index index (set_item ''model'' (JStr model_name))) pa_json
        else Inr pa_json)
       (\<lambda>pa_json.
          if add_stream then
            in_item ''data'' (in_index index (set_item ''stream'' (JArr [JBool True]))) pa_json
          else Inr pa_json)"

definition add_required_tags_to_trtllm_json :: "json \<Rightarrow> nat \<Rightarrow> json result" where
  "add_required_tags_to_trtllm_json pa_json index =
     in_item ''data'' (in_index index
       (set_item ''max_tokens'' (JArr [JInt DEFAULT_TRTLLM_MAX_TOKENS]))) pa_json"

definition trtllm_entry ::
  "json list \<Rightarrow> json list \<Rightarrow> json list \<Rightarrow> bool \<Rightarrow> bool \<Rightarrow> string \<Rightarrow> nat \<times> json \<Rightarrow> json
     \<Rightarrow> json result" where
  "trtllm_entry system_role_headers user_role_headers text_input_headers add_model_name add_stream
       model_name ie pa_json =
     (case ie of (index, entry) \<Rightarrow>
        and_then (in_item ''data'' (append_to (JObj [(''text_input'', JArr [JStr []])])) pa_json)
          (\<lambda>pa_json.
        and_then (items entry) (\<lambda>kvs.
        and_then (for_each (\<lambda>hc pa_json. case hc of (header, content) \<Rightarrow>
                      add_new_text_input_to_json pa_json index
                        (create_new_text_input header system_role_headers user_role_headers
                           text_input_headers content)) kvs pa_json) (\<lambda>pa_json.
        and_then (add_required_tags_to_trtllm_json pa_json index) (\<lambda>pa_json.
        add_optional_tags_to_trtllm_json pa_json index add_model_name add_stream model_name)))))"

definition populate_trtllm_output_json ::
  "json \<Rightarrow> json list \<Rightarrow> json list \<Rightarrow> json list \<Rightarrow> bool \<Rightarrow> bool \<Rightarrow> string \<Rightarrow> json result" where
  "populate_trtllm_output_json dataset_json system_role_headers user_role_headers
       text_input_headers add_model_name add_stream model_name =
     and_then (get_item ''rows'' dataset_json) (\<lambda>rows.
     and_then (iterate rows) (\<lambda>entries.
       for_each (trtllm_entry system_role_headers user_role_headers text_input_headers
                   add_model_name add_stream model_name)
         (enumerate 0 entries) create_empty_trtllm_pa_json))"

definition convert_generic_json_to_trtllm_format ::
  "json \<Rightarrow> bool \<Rightarrow> bool \<Rightarrow> string \<Rightarrow> json result" where
  "convert_generic_json_to_trtllm_format dataset_json add_model_name add_stream model_name =
     and_then (determine_json_feature_roles dataset_json) (\<lambda>roles.
       case roles of (system_role_headers, user_role_headers, text_input_headers) \<Rightarrow>
         populate_trtllm_output_json dataset_json system_role_headers user_role_headers
           text_input_headers add_model_name add_stream model_name)"

subsection \<open>Selecting the formatter\<close>

datatype OutputFormat = OPENAI_CHAT_COMPLETIONS | OPENAI_COMPLETIONS | TRTLLM | VLLM

text \<open>\<^verbatim>\<open>_convert_generic_json_to_output_format\<close>. The enumeration has four members and
  each has a branch, so the closing \<^verbatim>\<open>else\<close> (output format not supported) is never
  taken by a member of the enumeration.\<close>

definition convert_generic_json_to_output_format ::
  "OutputFormat \<Rightarrow> json \<Rightarrow> bool \<Rightarrow> bool \<Rightarrow> string \<Rightarrow> json result" where
  "convert_generic_json_to_output_format output_format generic_dataset add_model_name add_stream
       model_name =
     (case output_format of
        OPENAI_CHAT_COMPLETIONS \<Rightarrow>
          convert_generic_json_to_openai_chat_completions_format generic_dataset add_model_name
            add_stream model_name
      | OPENAI_COMPLETIONS \<Rightarrow>
          convert_generic_json_to_openai_completions_format generic_dataset add_model_name
            add_stream model_name
      | VLLM \<Rightarrow>
          convert_generic_json_to_vllm_format generic_dataset add_model_name add_stream model_name
      | TRTLLM \<Rightarrow>
          convert_generic_json_to_trtllm_format generic_dataset add_model_name add_stream
            model_name)"

section \<open>The generic dataset\<close>

text \<open>\<^verbatim>\<open>_add_features_to_generic_json\<close>, \<^verbatim>\<open>_add_rows_to_generic_json\<close> and
  \<^verbatim>\<open>_convert_dataset_to_generic_input_json\<close>. The key \<^verbatim>\<open>features\<close> is written only when
  the dataset has it; \<^verbatim>\<open>feature["name"]\<close> and \<^verbatim>\<open>row["row"]\<close> are plain subscripts.\<close>

definition add_features_to_generic_json :: "json \<Rightarrow> json \<Rightarrow> json result" where
  "add_features_to_generic_json generic_input_json dataset_json =
     and_then (has_key ''features'' dataset_json) (\<lambda>present.
       if present then
         and_then (set_item ''features'' (JArr []) generic_input_json) (\<lambda>generic_input_json.
         and_then (get_item ''features'' dataset_json) (\<lambda>fs.
         and_then (iterate fs) (\<lambda>features.
           for_each (\<lambda>feature generic_input_json.
                and_then (get_item ''name'' feature) (\<lambda>name.
                  in_item ''features'' (append_to name) generic_input_json))
             features generic_input_json)))
       else Inr generic_input_json)"

definition add_rows_to_generic_json :: "json \<Rightarrow> json \<Rightarrow> json result" where
  "add_rows_to_generic_json generic_input_json dataset_json =
     and_then (set_item ''rows'' (JArr []) generic_input_json) (\<lambda>generic_input_json.
     and_then (get_item ''rows'' dataset_json) (\<lambda>rs.
     and_then (iterate rs) (\<lambda>rows.
       for_each (\<lambda>row generic_input_json.
            and_then (get_item ''row'' row) (\<lambda>r.
              in_item ''rows'' (append_to r) generic_input_json))
         rows generic_input_json)))"

definition convert_dataset_to_generic_input_json :: "json \<Rightarrow> json result" where
  "convert_dataset_to_generic_input_json dataset_json =
     and_then (add_features_to_generic_json (JObj []) dataset_json) (\<lambda>generic_input_json.
       add_rows_to_generic_json generic_input_json dataset_json)"

definition convert_input_synthetic_dataset_to_generic_json :: "json \<Rightarrow> json result" where
  "convert_input_synthetic_dataset_to_generic_json dataset =
     convert_dataset_to_generic_input_json dataset"

definition check_for_error_in_json_of_dataset :: "json \<Rightarrow> unit result" where
  "check_for_error_in_json_of_dataset json_of_dataset =
     and_then (has_key ''error'' json_of_dataset) (\<lambda>present.
       if present then
         and_then (get_item ''error'' json_of_dataset) (\<lambda>e. Inl (GenAIPerfException (Arg e)))
       else Inr ())"

text \<open>\<^verbatim>\<open>_convert_input_url_dataset_to_generic_json\<close>. The response of the server is its
  body as parsed JSON, or nothing when the body is not JSON and \<^verbatim>\<open>dataset.json()\<close>
  raises.\<close>

definition convert_input_url_dataset_to_generic_json :: "json option \<Rightarrow> json result" where
  "convert_input_url_dataset_to_generic_json dataset =
     (case dataset of
        None \<Rightarrow> Inl JSONDecodeError
      | Some dataset_json \<Rightarrow>
          (case check_for_error_in_json_of_dataset dataset_json of
             Inl e \<Rightarrow> Inl (GenAIPerfException (Cause e))
           | Inr _ \<Rightarrow> convert_dataset_to_generic_input_json dataset_json))"

section \<open>Validation of the arguments\<close>

datatype InputType = URL | FILE | SYNTHETIC

text \<open>
  \<^verbatim>\<open>starting_index\<close> and \<^verbatim>\<open>length\<close> are declared \<^verbatim>\<open>int\<close>, and the program tests
  \<^verbatim>\<open>isinstance(x, int)\<close>, so the caller can pass anything. An argument is an integer, a
  boolean (in Python an instance of \<^verbatim>\<open>int\<close>, with \<^verbatim>\<open>True == 1\<close>) or any other object,
  of which only the text that \<^verbatim>\<open>str\<close> gives is kept.
\<close>

datatype arg = AInt int | ABool bool | AOther string

fun isinstance_int :: "arg \<Rightarrow> bool" where
  "isinstance_int (AInt n) = True"
| "isinstance_int (ABool b) = True"
| "isinstance_int (AOther s) = False"

text \<open>The value of an instance of \<^verbatim>\<open>int\<close> in a comparison; the program compares only
  after the \<^verbatim>\<open>isinstance\<close> test.\<close>

fun int_value :: "arg \<Rightarrow> int" where
  "int_value (AInt n) = n"
| "int_value (ABool b) = (if b then 1 else 0)"
| "int_value (AOther s) = 0"

fun str_arg :: "arg \<Rightarrow> string" where
  "str_arg (AInt n) = str_int n"
| "str_arg (ABool b) = (if b then ''True'' else ''False'')"
| "str_arg (AOther s) = s"

definition MINIMUM_STARTING_INDEX :: int where
  "MINIMUM_STARTING_INDEX = 0"

definition MINIMUM_LENGTH :: int where
  "MINIMUM_LENGTH = 1"

definition check_for_dataset_name_if_input_type_is_url :: "InputType \<Rightarrow> string \<Rightarrow> unit result" where
  "check_for_dataset_name_if_input_type_is_url input_type dataset_name =
     (if input_type = URL \<and> dataset_name = [] then
        Inl (GenAIPerfException (Arg (JStr
          ''Input type is URL, but dataset_name is not specified.'')))
      else Inr ())"

definition check_for_valid_starting_index :: "arg \<Rightarrow> unit result" where
  "check_for_valid_starting_index starting_index =
     (if \<not> isinstance_int starting_index then
        Inl (GenAIPerfException (Arg (JStr
          (''starting_index: '' @ str_arg starting_index @ '' must be an integer.''))))
      else if int_value starting_index < MINIMUM_STARTING_INDEX then
        Inl (GenAIPerfException (Arg (JStr
          (''starting_index: '' @ str_arg starting_index @ '' must be larger than ''
             @ str_int MINIMUM_STARTING_INDEX @ ''.''))))
      else Inr ())"

definition check_for_valid_length :: "arg \<Rightarrow> unit result" where
  "check_for_valid_length length' =
     (if \<not> isinstance_int length' then
        Inl (GenAIPerfException (Arg (JStr
          (''length: '' @ str_arg length' @ '' must be an integer.''))))
      else if int_value length' < MINIMUM_LENGTH then
        Inl (GenAIPerfException (Arg (JStr
          (''starting_index: '' @ str_arg length' @ '' must be larger than ''
             @ str_int MINIMUM_LENGTH @ ''.''))))
      else Inr ())"

definition check_for_valid_args :: "InputType \<Rightarrow> string \<Rightarrow> arg \<Rightarrow> arg \<Rightarrow> unit result" where
  "check_for_valid_args input_type dataset_name starting_index length' =
     (case and_then (check_for_dataset_name_if_input_type_is_url input_type dataset_name) (\<lambda>_.
           and_then (check_for_valid_starting_index starting_index) (\<lambda>_.
           check_for_valid_length length')) of
        Inl e \<Rightarrow> Inl (GenAIPerfException (Cause e))
      | Inr u \<Rightarrow> Inr u)"

section \<open>The orchestrator and its environment\<close>

text \<open>
  What a run can change outside its own objects: the requests sent to the network, the
  content of the output file \<^verbatim>\<open>DEFAULT_INPUT_DATA_JSON\<close> (nothing until the run writes
  it, then the document that \<^verbatim>\<open>json.dumps\<close> serialises), and the state of Python's
  global random number generator.
\<close>

record 'r world =
  requests :: "string list"
  output_file :: "json option"
  random_state :: 'r

text \<open>
  What the program calls and this file does not contain. \<^verbatim>\<open>requests.get\<close> answers a
  URL with a response (its body as JSON, if it is JSON) or raises an exception, of which
  the arguments \<^verbatim>\<open>exception.args\<close> are kept as far as \<^verbatim>\<open>_create_error_message\<close> reads
  them: an argument is a string, an exception with arguments of its own (the connection
  errors of \<^verbatim>\<open>requests\<close> carry one whose first argument is the text with the URL), or
  another object, which has neither \<^verbatim>\<open>args\<close> nor \<^verbatim>\<open>find\<close>.
  \<^verbatim>\<open>random.seed\<close> sets the state of the generator from an integer.
  \<^verbatim>\<open>SyntheticPromptGenerator.create_synthetic_prompt\<close> (module
  \<^verbatim>\<open>genai_perf.llm_inputs.synthetic_prompt_generator\<close>, not part of the file) returns a
  prompt and a number from its three arguments and the state of the generator, which it
  advances.
\<close>

datatype exception_value = Text string | Exc "exception_value list" | Other

datatype reply = Raised "exception_value list" | Response "json option"

record 'r environment =
  requests_get :: "string \<Rightarrow> reply"
  random_seed_fn :: "int \<Rightarrow> 'r"
  generator_create_synthetic_prompt :: "int \<Rightarrow> int \<Rightarrow> int \<Rightarrow> 'r \<Rightarrow> (string \<times> int) \<times> 'r"

subsection \<open>A dataset from a URL\<close>

text \<open>Modelled from the spec: the constants \<^verbatim>\<open>OPEN_ORCA\<close> and \<^verbatim>\<open>CNN_DAILY_MAIL\<close> of
  \<^verbatim>\<open>genai_perf.constants\<close> are not in the file; the spec names the registry
  \<open>{openorca, cnn_dailymail}\<close>.\<close>

definition OPEN_ORCA :: string where
  "OPEN_ORCA = ''openorca''"

definition CNN_DAILY_MAIL :: string where
  "CNN_DAILY_MAIL = ''cnn_dailymail''"

definition OPEN_ORCA_URL :: string where
  "OPEN_ORCA_URL =
     ''https://datasets-server.huggingface.co/rows?dataset=Open-Orca%2FOpenOrca&config=default&split=train''"

definition CNN_DAILYMAIL_URL :: string where
  "CNN_DAILYMAIL_URL =
     ''https://datasets-server.huggingface.co/rows?dataset=cnn_dailymail&config=1.0.0&split=train''"

definition dataset_url_map :: "(string \<times> string) list" where
  "dataset_url_map = [(OPEN_ORCA, OPEN_ORCA_URL), (CNN_DAILY_MAIL, CNN_DAILYMAIL_URL)]"

definition resolve_url :: "string \<Rightarrow> string result" where
  "resolve_url dataset_name =
     (case map_of dataset_url_map dataset_name of
        Some url \<Rightarrow> Inr url
      | None \<Rightarrow>
          Inl (GenAIPerfException (Arg (JStr
            (dataset_name @ '' does not have a corresponding URL in the dataset_url_map.'')))))"

definition create_configured_url :: "string \<Rightarrow> arg \<Rightarrow> arg \<Rightarrow> string" where
  "create_configured_url url starting_index length' =
     url @ ''&offset='' @ str_arg starting_index @ ''&length='' @ str_arg length'"

text \<open>\<^verbatim>\<open>s.find("'", start)\<close> with \<open>start \<ge> 0\<close>, and the slice \<^verbatim>\<open>s[a:b]\<close> with Python's
  treatment of negative and too large bounds.\<close>

fun first_index :: "char \<Rightarrow> string \<Rightarrow> nat option" where
  "first_index c [] = None"
| "first_index c (x # xs) = (if x = c then Some 0 else map_option Suc (first_index c xs))"

definition str_find :: "char \<Rightarrow> string \<Rightarrow> nat \<Rightarrow> int" where
  "str_find c s start =
     (case first_index c (drop start s) of None \<Rightarrow> - 1 | Some k \<Rightarrow> int (start + k))"

definition slice_bound :: "string \<Rightarrow> int \<Rightarrow> nat" where
  "slice_bound s a =
     (if a < 0 then nat (max (a + int (length s)) 0) else min (nat a) (length s))"

definition str_slice :: "string \<Rightarrow> int \<Rightarrow> int \<Rightarrow> string" where
  "str_slice s a b = take (slice_bound s b - slice_bound s a) (drop (slice_bound s a) s)"

text \<open>\<^verbatim>\<open>_create_error_message\<close>: \<^verbatim>\<open>exception.args[0].args[0]\<close> raises \<^verbatim>\<open>IndexError\<close> on an
  empty tuple of arguments and \<^verbatim>\<open>AttributeError\<close> on an object without \<^verbatim>\<open>args\<close>, and
  \<^verbatim>\<open>url_str.find\<close> raises \<^verbatim>\<open>AttributeError\<close> unless \<^verbatim>\<open>url_str\<close> is a string.\<close>

definition create_error_message :: "exception_value list \<Rightarrow> string result" where
  "create_error_message exception_args =
     (case exception_args of
        [] \<Rightarrow> Inl IndexError
      | Exc [] # _ \<Rightarrow> Inl IndexError
      | Exc (Text url_str # _) # _ \<Rightarrow>
          (let url_start = str_find (CHR 0x27) url_str 0;
               url_end = str_find (CHR 0x27) url_str (nat (url_start + 1)) + 1
           in Inr (''Invalid URL: '' @ str_slice url_str url_start url_end))
      | _ \<Rightarrow> Inl AttributeError)"

text \<open>\<^verbatim>\<open>_query_server\<close>. An exception that \<^verbatim>\<open>_create_error_message\<close> raises inside the
  handler leaves the function as it is.\<close>

definition query_server ::
  "'r environment \<Rightarrow> string \<Rightarrow> 'r world \<Rightarrow> json option result \<times> 'r world" where
  "query_server env configured_url w =
     (let w = w\<lparr>requests := requests w @ [configured_url]\<rparr>
      in case requests_get env configured_url of
           Raised exception_args \<Rightarrow>
             (case create_error_message exception_args of
                Inl e \<Rightarrow> (Inl e, w)
              | Inr error_message \<Rightarrow> (Inl (GenAIPerfException (Arg (JStr error_message))), w))
         | Response body \<Rightarrow> (Inr body, w))"

definition download_dataset ::
  "'r environment \<Rightarrow> string \<Rightarrow> arg \<Rightarrow> arg \<Rightarrow> 'r world \<Rightarrow> json option result \<times> 'r world" where
  "download_dataset env configured_url starting_index length' w = query_server env configured_url w"

definition get_input_dataset_from_url ::
  "'r environment \<Rightarrow> string \<Rightarrow> arg \<Rightarrow> arg \<Rightarrow> 'r world \<Rightarrow> json option result \<times> 'r world" where
  "get_input_dataset_from_url env dataset_name starting_index length' w =
     (case resolve_url dataset_name of
        Inl e \<Rightarrow> (Inl e, w)
      | Inr url \<Rightarrow>
          download_dataset env (create_configured_url url starting_index length')
            starting_index length' w)"

subsection \<open>A synthetic dataset\<close>

definition create_synthetic_prompt ::
  "'r environment \<Rightarrow> int \<Rightarrow> int \<Rightarrow> int \<Rightarrow> int \<Rightarrow> 'r world \<Rightarrow> (string \<times> int) \<times> 'r world" where
  "create_synthetic_prompt env prompt_tokens_mean prompt_tokens_stddev expected_output_tokens
       random_seed w =
     (let w = w\<lparr>random_state := random_seed_fn env random_seed\<rparr>;
          (result, r) = generator_create_synthetic_prompt env prompt_tokens_mean
                          prompt_tokens_stddev expected_output_tokens (random_state w)
      in (result, w\<lparr>random_state := r\<rparr>))"

text \<open>The loop \<^verbatim>\<open>for index in range(0, num_of_output_prompts)\<close>, over the dataset under
  construction and the world.\<close>

fun synthetic_rows ::
  "'r environment \<Rightarrow> int \<Rightarrow> int \<Rightarrow> int \<Rightarrow> int \<Rightarrow> nat list \<Rightarrow> json \<Rightarrow> 'r world
     \<Rightarrow> json result \<times> 'r world" where
  "synthetic_rows env prompt_tokens_mean prompt_tokens_stddev expected_output_tokens random_seed
       [] dataset_json w = (Inr dataset_json, w)"
| "synthetic_rows env prompt_tokens_mean prompt_tokens_stddev expected_output_tokens random_seed
       (index # indices) dataset_json w =
     (case create_synthetic_prompt env prompt_tokens_mean prompt_tokens_stddev
             expected_output_tokens (random_seed + int index) w of
        ((synthetic_prompt, _), w) \<Rightarrow>
          (case in_item ''rows''
                  (append_to (JObj [(''row'', JObj [(''text_input'', JStr synthetic_prompt)])]))
                  dataset_json of
             Inl e \<Rightarrow> (Inl e, w)
           | Inr dataset_json \<Rightarrow>
               synthetic_rows env prompt_tokens_mean prompt_tokens_stddev expected_output_tokens
                 random_seed indices dataset_json w))"

definition get_input_dataset_from_synthetic ::
  "'r environment \<Rightarrow> int \<Rightarrow> int \<Rightarrow> int \<Rightarrow> int \<Rightarrow> int \<Rightarrow> 'r world \<Rightarrow> json result \<times> 'r world" where
  "get_input_dataset_from_synthetic env prompt_tokens_mean prompt_tokens_stddev
       expected_output_tokens num_of_output_prompts random_seed w =
     synthetic_rows env prompt_tokens_mean prompt_tokens_stddev expected_output_tokens random_seed
       [0 ..< nat num_of_output_prompts]
       (JObj [(''features'', JArr [JObj [(''name'', JStr ''text_input'')]]), (''rows'', JArr [])])
       w"

subsection \<open>The entry point\<close>

definition write_json_to_file :: "json \<Rightarrow> 'r world \<Rightarrow> 'r world" where
  "write_json_to_file json_in_pa_format w = w\<lparr>output_file := Some json_in_pa_format\<rparr>"

record arguments =
  input_type :: InputType
  output_format :: OutputFormat
  dataset_name :: string
  model_name :: string
  input_filename :: string
  starting_index :: arg
  length_arg :: arg
  prompt_tokens_mean :: int
  prompt_tokens_stddev :: int
  expected_output_tokens :: int
  random_seed :: int
  num_of_output_prompts :: int
  add_model_name :: bool
  add_stream :: bool

text \<open>\<^verbatim>\<open>create_llm_inputs\<close>: the result (the output, or the exception) and the world
  after the run.\<close>

definition create_llm_inputs ::
  "'r environment \<Rightarrow> arguments \<Rightarrow> 'r world \<Rightarrow> json result \<times> 'r world" where
  "create_llm_inputs env a w =
     (case check_for_valid_args (input_type a) (dataset_name a) (starting_index a) (length_arg a) of
        Inl e \<Rightarrow> (Inl e, w)
      | Inr _ \<Rightarrow>
          (case
             (case input_type a of
                URL \<Rightarrow>
                  (case get_input_dataset_from_url env (dataset_name a) (starting_index a)
                          (length_arg a) w of
                     (Inl e, w) \<Rightarrow> (Inl e, w)
                   | (Inr dataset, w) \<Rightarrow>
                       (convert_input_url_dataset_to_generic_json dataset, w))
              | SYNTHETIC \<Rightarrow>
                  (case get_input_dataset_from_synthetic env (prompt_tokens_mean a)
                          (prompt_tokens_stddev a) (expected_output_tokens a)
                          (num_of_output_prompts a) (random_seed a) w of
                     (Inl e, w) \<Rightarrow> (Inl e, w)
                   | (Inr dataset, w) \<Rightarrow>
                       (convert_input_synthetic_dataset_to_generic_json dataset, w))
              | FILE \<Rightarrow>
                  (Inl (GenAIPerfException (Arg (JStr
                     ''Using a file to supply LLM Input is not supported at this time''))), w))
           of
             (Inl e, w) \<Rightarrow> (Inl e, w)
           | (Inr generic_dataset_json, w) \<Rightarrow>
               (case convert_generic_json_to_output_format (output_format a) generic_dataset_json
                       (add_model_name a) (add_stream a) (model_name a) of
                  Inl e \<Rightarrow> (Inl e, w)
                | Inr json_in_pa_format \<Rightarrow>
                    (Inr json_in_pa_format, write_json_to_file json_in_pa_format w))))"

section \<open>The formatters, payload by payload\<close>

text \<open>
  The formatters address every payload through the whole output,
  \<^verbatim>\<open>pa_json["data"][index]\<close>. The definitions of this section are the same operations
  with that prefix removed, on the payload itself; the lemmas below show that each
  function of the program is its payload operation applied at \<open>index\<close>, and each loop over
  the rows the list of the payloads in order. They serve the proofs only.
\<close>

definition payload_collection :: "json list \<Rightarrow> json" where
  "payload_collection ps = JObj [(''data'', JArr ps)]"

text \<open>One result per element, in order, or the first exception.\<close>

fun collect :: "('a \<Rightarrow> 'b result) \<Rightarrow> 'a list \<Rightarrow> 'b list result" where
  "collect g [] = Inr []"
| "collect g (x # xs) = and_then (g x) (\<lambda>y. and_then (collect g xs) (\<lambda>ys. Inr (y # ys)))"

definition message_payload_add :: "json \<Rightarrow> json \<Rightarrow> json result" where
  "message_payload_add p new_message =
     (if truthy new_message then
        in_item ''payload'' (in_index 0 (in_item ''messages'' (append_to new_message))) p
      else Inr p)"

definition openai_payload_optional_tags :: "bool \<Rightarrow> bool \<Rightarrow> string \<Rightarrow> json \<Rightarrow> json result" where
  "openai_payload_optional_tags with_model with_stream name p =
     and_then
       (if with_model then
          in_item ''payload'' (in_index 0 (set_item ''model'' (JStr name))) p
        else Inr p)
       (\<lambda>p. if with_stream then
               in_item ''payload'' (in_index 0 (set_item ''stream'' (JBool True))) p
             else Inr p)"

definition openai_chat_completions_payload ::
  "json list \<Rightarrow> json list \<Rightarrow> bool \<Rightarrow> bool \<Rightarrow> string \<Rightarrow> json \<Rightarrow> json result" where
  "openai_chat_completions_payload system_role_headers user_role_headers with_model
       with_stream name entry =
     and_then (items entry) (\<lambda>kvs.
     and_then (for_each (\<lambda>hc p. case hc of (header, content) \<Rightarrow>
                   message_payload_add p
                     (create_new_openai_chat_completions_message header system_role_headers
                        user_role_headers content))
                 kvs (JObj [(''payload'', JArr [JObj [(''messages'', JArr [])]])]))
       (openai_payload_optional_tags with_model with_stream name))"

definition prompt_payload_add :: "json \<Rightarrow> json \<Rightarrow> json result" where
  "prompt_payload_add p new_prompt =
     (let prompt0 = (\<lambda>p.
            and_then (get_item ''payload'' p) (\<lambda>pl. and_then (get_index 0 pl) (\<lambda>p0.
            and_then (get_item ''prompt'' p0) (get_index 0))));
          store = (\<lambda>v. in_item ''payload'' (in_index 0 (in_item ''prompt'' (set_index 0 v))))
      in if truthy new_prompt then
           and_then (prompt0 p) (\<lambda>current.
             if truthy current then
               and_then (prompt0 p) (\<lambda>left.
               and_then (plus_space_formatted left new_prompt) (\<lambda>v. store v p))
             else store new_prompt p)
         else Inr p)"

definition openai_completions_payload ::
  "json list \<Rightarrow> json list \<Rightarrow> json list \<Rightarrow> bool \<Rightarrow> bool \<Rightarrow> string \<Rightarrow> json \<Rightarrow> json result" where
  "openai_completions_payload system_role_headers user_role_headers text_input_headers with_model
       with_stream name entry =
     and_then (items entry) (\<lambda>kvs.
     and_then (for_each (\<lambda>hc p. case hc of (header, content) \<Rightarrow>
                   prompt_payload_add p
                     (create_new_prompt header system_role_headers user_role_headers
                        text_input_headers content))
                 kvs (JObj [(''payload'', JArr [JObj [(''prompt'', JArr [JStr []])]])]))
       (openai_payload_optional_tags with_model with_stream name))"

definition text_input_payload_add :: "json \<Rightarrow> json \<Rightarrow> json result" where
  "text_input_payload_add p new_text_input =
     (let text_input0 = (\<lambda>p. and_then (get_item ''text_input'' p) (get_index 0));
          store = (\<lambda>v. in_item ''text_input'' (set_index 0 v))
      in if truthy new_text_input then
           and_then (text_input0 p) (\<lambda>current.
             if truthy current then
               and_then (text_input0 p) (\<lambda>left.
               and_then (plus_space_formatted left new_text_input) (\<lambda>v. store v p))
             else store new_text_input p)
         else Inr p)"

definition vllm_payload_optional_tags :: "bool \<Rightarrow> bool \<Rightarrow> string \<Rightarrow> json \<Rightarrow> json result" where
  "vllm_payload_optional_tags with_model with_stream name p =
     and_then (if with_model then set_item ''model'' (JStr name) p else Inr p)
       (\<lambda>p. if with_stream then set_item ''stream'' (JArr [JBool True]) p else Inr p)"

definition vllm_payload ::
  "json list \<Rightarrow> json list \<Rightarrow> json list \<Rightarrow> bool \<Rightarrow> bool \<Rightarrow> string \<Rightarrow> json \<Rightarrow> json result" where
  "vllm_payload system_role_headers user_role_headers text_input_headers with_model with_stream
       name entry =
     and_then (items entry) (\<lambda>kvs.
     and_then (for_each (\<lambda>hc p. case hc of (header, content) \<Rightarrow>
                   text_input_payload_add p
                     (create_new_text_input header system_role_headers user_role_headers
                        text_input_headers content))
                 kvs (JObj [(''text_input'', JArr [JStr []])]))
       (vllm_payload_optional_tags with_model with_stream name))"

definition trtllm_payload ::
  "json list \<Rightarrow> json list \<Rightarrow> json list \<Rightarrow> bool \<Rightarrow> bool \<Rightarrow> string \<Rightarrow> json \<Rightarrow> json result" where
  "trtllm_payload system_role_headers user_role_headers text_input_headers with_model with_stream
       name entry =
     and_then (items entry) (\<lambda>kvs.
     and_then (for_each (\<lambda>hc p. case hc of (header, content) \<Rightarrow>
                   text_input_payload_add p
                     (create_new_text_input header system_role_headers user_role_headers
                        text_input_headers content))
                 kvs (JObj [(''text_input'', JArr [JStr []])])) (\<lambda>p.
     and_then (set_item ''max_tokens'' (JArr [JInt DEFAULT_TRTLLM_MAX_TOKENS]) p)
       (vllm_payload_optional_tags with_model with_stream name)))"

section \<open>The canonical dataset and the payloads the spec describes\<close>

text \<open>
  The generic dataset as \<^verbatim>\<open>_convert_dataset_to_generic_input_json\<close> builds it: the key
  \<^verbatim>\<open>features\<close>, when the raw dataset had one, then the key \<^verbatim>\<open>rows\<close>. A row of the
  canonical dataset maps headers to text.
\<close>

definition generic_dataset :: "json list option \<Rightarrow> json list \<Rightarrow> json" where
  "generic_dataset features rows =
     JObj ((case features of None \<Rightarrow> [] | Some fs \<Rightarrow> [(''features'', JArr fs)])
           @ [(''rows'', JArr rows)])"

definition row_json :: "(string \<times> string) list \<Rightarrow> json" where
  "row_json kvs = JObj (map (\<lambda>hc. (fst hc, JStr (snd hc))) kvs)"

text \<open>
  The spec's words for the text field of the completions, VLLM and TRT-LLM payloads: the
  first contribution sets the field verbatim, a later non-empty contribution is appended
  after one space, an empty contribution changes nothing; the contributions are the
  values of the headers that belong to a role, in the row's order.
\<close>

definition append_contribution :: "string \<Rightarrow> string \<Rightarrow> string" where
  "append_contribution field c =
     (if c = [] then field else if field = [] then c else field @ '' '' @ c)"

definition in_roles :: "json list \<Rightarrow> json list \<Rightarrow> json list \<Rightarrow> string \<Rightarrow> bool" where
  "in_roles sys usr txt header =
     (JStr header \<in> set sys \<or> JStr header \<in> set usr \<or> JStr header \<in> set txt)"

definition row_text :: "json list \<Rightarrow> json list \<Rightarrow> json list \<Rightarrow> (string \<times> string) list \<Rightarrow> string" where
  "row_text sys usr txt kvs =
     foldl append_contribution [] (map snd (filter (\<lambda>hc. in_roles sys usr txt (fst hc)) kvs))"

text \<open>The optional fields, in the order the program stores them.\<close>

definition optional_tags :: "bool \<Rightarrow> string \<Rightarrow> bool \<Rightarrow> json \<Rightarrow> (string \<times> json) list" where
  "optional_tags with_model name with_stream stream_value =
     (if with_model then [(''model'', JStr name)] else [])
     @ (if with_stream then [(''stream'', stream_value)] else [])"

text \<open>The four payload shapes of the spec's table of output formats.\<close>

definition vllm_row_payload ::
  "json list \<Rightarrow> json list \<Rightarrow> json list \<Rightarrow> bool \<Rightarrow> bool \<Rightarrow> string \<Rightarrow> (string \<times> string) list \<Rightarrow> json" where
  "vllm_row_payload sys usr txt with_model with_stream name kvs =
     JObj ((''text_input'', JArr [JStr (row_text sys usr txt kvs)])
           # optional_tags with_model name with_stream (JArr [JBool True]))"

definition trtllm_row_payload ::
  "json list \<Rightarrow> json list \<Rightarrow> json list \<Rightarrow> bool \<Rightarrow> bool \<Rightarrow> string \<Rightarrow> (string \<times> string) list \<Rightarrow> json" where
  "trtllm_row_payload sys usr txt with_model with_stream name kvs =
     JObj ((''text_input'', JArr [JStr (row_text sys usr txt kvs)])
           # (''max_tokens'', JArr [JInt 256])
           # optional_tags with_model name with_stream (JArr [JBool True]))"

definition openai_completions_row_payload ::
  "json list \<Rightarrow> json list \<Rightarrow> json list \<Rightarrow> bool \<Rightarrow> bool \<Rightarrow> string \<Rightarrow> (string \<times> string) list \<Rightarrow> json" where
  "openai_completions_row_payload sys usr txt with_model with_stream name kvs =
     JObj [(''payload'', JArr [JObj ((''prompt'', JArr [JStr (row_text sys usr txt kvs)])
           # optional_tags with_model name with_stream (JBool True))])]"

text \<open>The spec's words for the chat messages: one message per header of a system or
  user role whose content is not blank, in the row's order.\<close>

definition row_messages :: "json list \<Rightarrow> json list \<Rightarrow> (string \<times> json) list \<Rightarrow> json list" where
  "row_messages sys usr kvs =
     map (\<lambda>hc. JObj [(''role'', JStr (if JStr (fst hc) \<in> set sys then ''system'' else ''user'')),
                     (''content'', snd hc)])
       (filter (\<lambda>hc. truthy (snd hc) \<and> (JStr (fst hc) \<in> set sys \<or> JStr (fst hc) \<in> set usr)) kvs)"

definition openai_chat_completions_row_payload ::
  "json list \<Rightarrow> json list \<Rightarrow> bool \<Rightarrow> bool \<Rightarrow> string \<Rightarrow> (string \<times> json) list \<Rightarrow> json" where
  "openai_chat_completions_row_payload sys usr with_model with_stream name kvs =
     JObj [(''payload'', JArr [JObj ((''messages'', JArr (row_messages sys usr kvs))
           # optional_tags with_model name with_stream (JBool True))])]"

text \<open>The role sets of a dataset: the features the classifier iterates over (none when
  the dataset has no key \<^verbatim>\<open>features\<close>), those of the system role and those of the user
  role.\<close>

definition dataset_features :: "json list option \<Rightarrow> json list" where
  "dataset_features fs = (case fs of None \<Rightarrow> [] | Some l \<Rightarrow> l)"

definition system_role_features :: "json list option \<Rightarrow> json list" where
  "system_role_features fs = filter (\<lambda>f. f = JStr ''system_prompt'') (dataset_features fs)"

definition user_role_features :: "json list option \<Rightarrow> json list" where
  "user_role_features fs =
     filter (\<lambda>f. f = JStr ''question'' \<or> f = JStr ''article'' \<or> f = JStr ''text_input'')
       (dataset_features fs)"

section \<open>Default arguments and an example environment\<close>

text \<open>
  The defaults of the keyword parameters of \<^verbatim>\<open>create_llm_inputs\<close>, then an environment
  and a world on which the entry point can be evaluated: a server that answers every
  request with an error object, a generator seeded by the integer itself whose prompt is
  the decimal text of its state.
\<close>

definition DEFAULT_STARTING_INDEX :: int where
  "DEFAULT_STARTING_INDEX = 0"

definition DEFAULT_LENGTH :: int where
  "DEFAULT_LENGTH = 100"

definition DEFAULT_RANDOM_SEED :: int where
  "DEFAULT_RANDOM_SEED = 0"

definition DEFAULT_PROMPT_TOKENS_MEAN :: int where
  "DEFAULT_PROMPT_TOKENS_MEAN = 550"

definition DEFAULT_PROMPT_TOKENS_STDDEV :: int where
  "DEFAULT_PROMPT_TOKENS_STDDEV = 0"

definition DEFAULT_EXPECTED_OUTPUT_TOKENS :: int where
  "DEFAULT_EXPECTED_OUTPUT_TOKENS = 150"

definition DEFAULT_NUM_OF_OUTPUT_PROMPTS :: int where
  "DEFAULT_NUM_OF_OUTPUT_PROMPTS = 100"

definition default_arguments :: "InputType \<Rightarrow> OutputFormat \<Rightarrow> arguments" where
  "default_arguments it fmt =
     \<lparr>input_type = it, output_format = fmt, dataset_name = [], model_name = [],
      input_filename = [], starting_index = AInt DEFAULT_STARTING_INDEX,
      length_arg = AInt DEFAULT_LENGTH, prompt_tokens_mean = DEFAULT_PROMPT_TOKENS_MEAN,
      prompt_tokens_stddev = DEFAULT_PROMPT_TOKENS_STDDEV,
      expected_output_tokens = DEFAULT_EXPECTED_OUTPUT_TOKENS, random_seed = DEFAULT_RANDOM_SEED,
      num_of_output_prompts = DEFAULT_NUM_OF_OUTPUT_PROMPTS, add_model_name = False,
      add_stream = False\<rparr>"

definition example_environment :: "int environment" where
  "example_environment =
     \<lparr>requests_get = (\<lambda>url. Response (Some (JObj [(''error'', JStr ''no such split'')]))),
      random_seed_fn = (\<lambda>seed. seed),
      generator_create_synthetic_prompt = (\<lambda>mean stddev expected r. ((str_int r, mean), r + 1))\<rparr>"

definition example_world :: "int world" where
  "example_world = \<lparr>requests = [], output_file = None, random_state = 0\<rparr>"

section \<open>Lemmas: monadic plumbing and the loops over the output\<close>

lemma and_then_simps [simp]:
  "and_then (Inl e) f = Inl e"
  "and_then (Inr x) f = f x"
  by (simp_all add: and_then_def)

lemma and_then_assoc: "and_then (and_then m f) g = and_then m (\<lambda>x. and_then (f x) g)"
  by (cases m) simp_all

lemma and_then_Inr_iff: "and_then m f = Inr y \<longleftrightarrow> (\<exists>x. m = Inr x \<and> f x = Inr y)"
  by (cases m) simp_all

lemma in_data_append:
  "in_item ''data'' (append_to v) (payload_collection ps) = Inr (payload_collection (ps @ [v]))"
  by (simp add: in_item_def payload_collection_def)

lemma in_data_index:
  "i < length ps \<Longrightarrow>
   in_item ''data'' (in_index i f) (payload_collection ps) =
     and_then (f (ps ! i)) (\<lambda>p. Inr (payload_collection (ps[i := p])))"
  by (cases "f (ps ! i)") (simp_all add: in_item_def in_index_def payload_collection_def)

lemma get_data_index:
  "i < length ps \<Longrightarrow>
   and_then (get_item ''data'' (payload_collection ps)) (\<lambda>d. and_then (get_index i d) f) = f (ps ! i)"
  by (simp add: payload_collection_def)

lemma for_each_in_data_index:
  assumes "\<And>x qs. i < length qs \<Longrightarrow>
     body x (payload_collection qs) = and_then (g x (qs ! i)) (\<lambda>p. Inr (payload_collection (qs[i := p])))"
  shows "i < length ps \<Longrightarrow>
     for_each body xs (payload_collection ps) =
       and_then (for_each g xs (ps ! i)) (\<lambda>p. Inr (payload_collection (ps[i := p])))"
proof (induction xs arbitrary: ps)
  case Nil
  then show ?case by simp
next
  case (Cons x xs)
  show ?case
  proof (cases "g x (ps ! i)")
    case (Inl e)
    with Cons.prems show ?thesis by (simp add: assms)
  next
    case (Inr p)
    with Cons.prems Cons.IH [of "ps[i := p]"] show ?thesis by (simp add: assms)
  qed
qed

lemma for_each_enumerate_collect:
  assumes "\<And>e qs. body (length qs, e) (payload_collection qs) =
     and_then (g e) (\<lambda>p. Inr (payload_collection (qs @ [p])))"
  shows "for_each body (enumerate (length ps) es) (payload_collection ps) =
     and_then (collect g es) (\<lambda>qs. Inr (payload_collection (ps @ qs)))"
proof (induction es arbitrary: ps)
  case Nil
  then show ?case by simp
next
  case (Cons e es)
  show ?case
  proof (cases "g e")
    case (Inl err)
    then show ?thesis by (simp add: assms)
  next
    case (Inr p)
    with Cons.IH [of "ps @ [p]"] show ?thesis
      by (cases "collect g es") (simp_all add: assms)
  qed
qed

lemma update_then_Inr:
  "i < length ps \<Longrightarrow>
   and_then (and_then m (\<lambda>p. Inr (payload_collection (ps[i := p])))) f =
     and_then m (\<lambda>p. f (payload_collection (ps[i := p])))"
  by (cases m) simp_all

lemma add_new_message_to_json_payload:
  "i < length ps \<Longrightarrow>
   add_new_message_to_json (payload_collection ps) i m =
     and_then (message_payload_add (ps ! i) m) (\<lambda>p. Inr (payload_collection (ps[i := p])))"
  by (simp add: add_new_message_to_json_def message_payload_add_def in_data_index)

lemma add_optional_tags_to_openai_json_payload:
  "i < length ps \<Longrightarrow>
   add_optional_tags_to_openai_json (payload_collection ps) i a s n =
     and_then (openai_payload_optional_tags a s n (ps ! i))
       (\<lambda>p. Inr (payload_collection (ps[i := p])))"
  unfolding add_optional_tags_to_openai_json_def openai_payload_optional_tags_def
  by (cases a; cases s;
      cases "in_item ''payload'' (in_index 0 (set_item ''model'' (JStr n))) (ps ! i)")
     (simp_all add: in_data_index)

lemma in_payload_append:
  "in_item ''payload'' (append_to v) (JObj [(''payload'', JArr xs)]) =
     Inr (JObj [(''payload'', JArr (xs @ [v]))])"
  by (simp add: in_item_def)

lemma openai_chat_completions_entry_payload:
  "openai_chat_completions_entry sys usr a s n (length ps, e) (payload_collection ps) =
     and_then (openai_chat_completions_payload sys usr a s n e)
       (\<lambda>p. Inr (payload_collection (ps @ [p])))"
proof (cases "items e")
  case (Inl err)
  then show ?thesis
    by (simp add: openai_chat_completions_entry_def openai_chat_completions_payload_def
        in_data_append in_data_index in_payload_append)
next
  case (Inr kvs)
  let ?body = "\<lambda>hc pa_json. case hc of (header, content) \<Rightarrow>
     add_new_message_to_json pa_json (length ps)
       (create_new_openai_chat_completions_message header sys usr content)"
  let ?g = "\<lambda>hc p. case hc of (header, content) \<Rightarrow>
     message_payload_add p (create_new_openai_chat_completions_message header sys usr content)"
  let ?p0 = "JObj [(''payload'', JArr [JObj [(''messages'', JArr [])]])]"
  have loop: "for_each ?body kvs (payload_collection (ps @ [?p0])) =
      and_then (for_each ?g kvs ?p0) (\<lambda>p. Inr (payload_collection (ps @ [p])))"
    using for_each_in_data_index [of "length ps" ?body ?g "ps @ [?p0]" kvs]
    by (simp add: add_new_message_to_json_payload split: prod.splits)
  show ?thesis
    using Inr
    by (cases "for_each ?g kvs ?p0")
       (simp_all add: openai_chat_completions_entry_def openai_chat_completions_payload_def
          in_data_append in_data_index in_payload_append loop
          add_optional_tags_to_openai_json_payload)
qed

lemma and_then_if:
  "and_then (if c then a else b) f = (if c then and_then a f else and_then b f)"
  by simp

lemma add_new_prompt_to_json_payload:
  "i < length ps \<Longrightarrow>
   add_new_prompt_to_json (payload_collection ps) i new =
     and_then (prompt_payload_add (ps ! i) new) (\<lambda>p. Inr (payload_collection (ps[i := p])))"
  unfolding add_new_prompt_to_json_def prompt_payload_add_def Let_def
  by (simp add: get_data_index in_data_index and_then_assoc and_then_if cong: if_cong)

lemma add_new_text_input_to_json_payload:
  "i < length ps \<Longrightarrow>
   add_new_text_input_to_json (payload_collection ps) i new =
     and_then (text_input_payload_add (ps ! i) new) (\<lambda>p. Inr (payload_collection (ps[i := p])))"
  unfolding add_new_text_input_to_json_def text_input_payload_add_def Let_def
  by (simp add: get_data_index in_data_index and_then_assoc and_then_if cong: if_cong)

lemma add_optional_tags_to_vllm_json_payload:
  "i < length ps \<Longrightarrow>
   add_optional_tags_to_vllm_json (payload_collection ps) i a s n =
     and_then (vllm_payload_optional_tags a s n (ps ! i))
       (\<lambda>p. Inr (payload_collection (ps[i := p])))"
  unfolding add_optional_tags_to_vllm_json_def vllm_payload_optional_tags_def
  by (cases a; cases s; cases "set_item ''model'' (JStr n) (ps ! i)")
     (simp_all add: in_data_index)

lemma add_optional_tags_to_trtllm_json_payload:
  "i < length ps \<Longrightarrow>
   add_optional_tags_to_trtllm_json (payload_collection ps) i a s n =
     and_then (vllm_payload_optional_tags a s n (ps ! i))
       (\<lambda>p. Inr (payload_collection (ps[i := p])))"
  unfolding add_optional_tags_to_trtllm_json_def vllm_payload_optional_tags_def
  by (cases a; cases s; cases "set_item ''model'' (JStr n) (ps ! i)")
     (simp_all add: in_data_index)

lemma add_required_tags_to_trtllm_json_payload:
  "i < length ps \<Longrightarrow>
   add_required_tags_to_trtllm_json (payload_collection ps) i =
     and_then (set_item ''max_tokens'' (JArr [JInt DEFAULT_TRTLLM_MAX_TOKENS]) (ps ! i))
       (\<lambda>p. Inr (payload_collection (ps[i := p])))"
  by (simp add: add_required_tags_to_trtllm_json_def in_data_index)

lemma openai_completions_entry_payload:
  "openai_completions_entry sys usr txt a s n (length ps, e) (payload_collection ps) =
     and_then (openai_completions_payload sys usr txt a s n e)
       (\<lambda>p. Inr (payload_collection (ps @ [p])))"
proof (cases "items e")
  case (Inl err)
  then show ?thesis
    by (simp add: openai_completions_entry_def openai_completions_payload_def
        in_data_append in_data_index in_payload_append)
next
  case (Inr kvs)
  let ?body = "\<lambda>hc pa_json. case hc of (header, content) \<Rightarrow>
     add_new_prompt_to_json pa_json (length ps) (create_new_prompt header sys usr txt content)"
  let ?g = "\<lambda>hc p. case hc of (header, content) \<Rightarrow>
     prompt_payload_add p (create_new_prompt header sys usr txt content)"
  let ?p0 = "JObj [(''payload'', JArr [JObj [(''prompt'', JArr [JStr []])]])]"
  have loop: "for_each ?body kvs (payload_collection (ps @ [?p0])) =
      and_then (for_each ?g kvs ?p0) (\<lambda>p. Inr (payload_collection (ps @ [p])))"
    using for_each_in_data_index [of "length ps" ?body ?g "ps @ [?p0]" kvs]
    by (simp add: add_new_prompt_to_json_payload split: prod.splits)
  show ?thesis
    using Inr
    by (cases "for_each ?g kvs ?p0")
       (simp_all add: openai_completions_entry_def openai_completions_payload_def
          in_data_append in_data_index in_payload_append loop
          add_optional_tags_to_openai_json_payload)
qed

lemma vllm_entry_payload:
  "vllm_entry sys usr txt a s n (length ps, e) (payload_collection ps) =
     and_then (vllm_payload sys usr txt a s n e) (\<lambda>p. Inr (payload_collection (ps @ [p])))"
proof (cases "items e")
  case (Inl err)
  then show ?thesis
    by (simp add: vllm_entry_def vllm_payload_def in_data_append)
next
  case (Inr kvs)
  let ?body = "\<lambda>hc pa_json. case hc of (header, content) \<Rightarrow>
     add_new_text_input_to_json pa_json (length ps)
       (create_new_text_input header sys usr txt content)"
  let ?g = "\<lambda>hc p. case hc of (header, content) \<Rightarrow>
     text_input_payload_add p (create_new_text_input header sys usr txt content)"
  let ?p0 = "JObj [(''text_input'', JArr [JStr []])]"
  have loop: "for_each ?body kvs (payload_collection (ps @ [?p0])) =
      and_then (for_each ?g kvs ?p0) (\<lambda>p. Inr (payload_collection (ps @ [p])))"
    using for_each_in_data_index [of "length ps" ?body ?g "ps @ [?p0]" kvs]
    by (simp add: add_new_text_input_to_json_payload split: prod.splits)
  show ?thesis
    using Inr
    by (cases "for_each ?g kvs ?p0")
       (simp_all add: vllm_entry_def vllm_payload_def in_data_append loop
          add_optional_tags_to_vllm_json_payload)
qed

lemma trtllm_entry_payload:
  "trtllm_entry sys usr txt a s n (length ps, e) (payload_collection ps) =
     and_then (trtllm_payload sys usr txt a s n e) (\<lambda>p. Inr (payload_collection (ps @ [p])))"
proof (cases "items e")
  case (Inl err)
  then show ?thesis
    by (simp add: trtllm_entry_def trtllm_payload_def in_data_append)
next
  case (Inr kvs)
  let ?body = "\<lambda>hc pa_json. case hc of (header, content) \<Rightarrow>
     add_new_text_input_to_json pa_json (length ps)
       (create_new_text_input header sys usr txt content)"
  let ?g = "\<lambda>hc p. case hc of (header, content) \<Rightarrow>
     text_input_payload_add p (create_new_text_input header sys usr txt content)"
  let ?p0 = "JObj [(''text_input'', JArr [JStr []])]"
  let ?req = "set_item ''max_tokens'' (JArr [JInt DEFAULT_TRTLLM_MAX_TOKENS])"
  have loop: "for_each ?body kvs (payload_collection (ps @ [?p0])) =
      and_then (for_each ?g kvs ?p0) (\<lambda>p. Inr (payload_collection (ps @ [p])))"
    using for_each_in_data_index [of "length ps" ?body ?g "ps @ [?p0]" kvs]
    by (simp add: add_new_text_input_to_json_payload split: prod.splits)
  show ?thesis
  proof (cases "for_each ?g kvs ?p0")
    case (Inl err)
    with Inr show ?thesis
      by (simp add: trtllm_entry_def trtllm_payload_def in_data_append loop)
  next
    case p: (Inr p)
    with Inr show ?thesis
      by (cases "?req p")
         (simp_all add: trtllm_entry_def trtllm_payload_def in_data_append loop
            add_required_tags_to_trtllm_json_payload add_optional_tags_to_trtllm_json_payload)
  qed
qed

lemma populate_openai_chat_completions_output_json_collect:
  "populate_openai_chat_completions_output_json d sys usr a s n =
     and_then (get_item ''rows'' d) (\<lambda>rows. and_then (iterate rows) (\<lambda>entries.
     and_then (collect (openai_chat_completions_payload sys usr a s n) entries)
       (\<lambda>ps. Inr (payload_collection ps))))"
  using for_each_enumerate_collect [of "openai_chat_completions_entry sys usr a s n"
      "openai_chat_completions_payload sys usr a s n" "[]"]
  by (simp add: populate_openai_chat_completions_output_json_def
      openai_chat_completions_entry_payload create_empty_openai_pa_json_def
      payload_collection_def [of "[]"])

lemma populate_openai_completions_output_json_collect:
  "populate_openai_completions_output_json d sys usr txt a s n =
     and_then (get_item ''rows'' d) (\<lambda>rows. and_then (iterate rows) (\<lambda>entries.
     and_then (collect (openai_completions_payload sys usr txt a s n) entries)
       (\<lambda>ps. Inr (payload_collection ps))))"
  using for_each_enumerate_collect [of "openai_completions_entry sys usr txt a s n"
      "openai_completions_payload sys usr txt a s n" "[]"]
  by (simp add: populate_openai_completions_output_json_def
      openai_completions_entry_payload create_empty_openai_pa_json_def
      payload_collection_def [of "[]"])

lemma populate_vllm_output_json_collect:
  "populate_vllm_output_json d sys usr txt a s n =
     and_then (get_item ''rows'' d) (\<lambda>rows. and_then (iterate rows) (\<lambda>entries.
     and_then (collect (vllm_payload sys usr txt a s n) entries)
       (\<lambda>ps. Inr (payload_collection ps))))"
  using for_each_enumerate_collect [of "vllm_entry sys usr txt a s n"
      "vllm_payload sys usr txt a s n" "[]"]
  by (simp add: populate_vllm_output_json_def vllm_entry_payload create_empty_vllm_pa_json_def
      payload_collection_def [of "[]"])

lemma populate_trtllm_output_json_collect:
  "populate_trtllm_output_json d sys usr txt a s n =
     and_then (get_item ''rows'' d) (\<lambda>rows. and_then (iterate rows) (\<lambda>entries.
     and_then (collect (trtllm_payload sys usr txt a s n) entries)
       (\<lambda>ps. Inr (payload_collection ps))))"
  using for_each_enumerate_collect [of "trtllm_entry sys usr txt a s n"
      "trtllm_payload sys usr txt a s n" "[]"]
  by (simp add: populate_trtllm_output_json_def trtllm_entry_payload
      create_empty_trtllm_pa_json_def payload_collection_def [of "[]"])

lemma collect_map_Inr:
  "(\<And>x. x \<in> set xs \<Longrightarrow> g (h x) = Inr (f x)) \<Longrightarrow> collect g (map h xs) = Inr (map f xs)"
  by (induction xs) simp_all

lemma text_input_payload_add_JStr:
  "text_input_payload_add (JObj ((''text_input'', JArr [JStr t]) # rest)) (JStr c) =
     Inr (JObj ((''text_input'', JArr [JStr (append_contribution t c)]) # rest))"
  by (simp add: text_input_payload_add_def Let_def in_item_def plus_space_formatted_def
      append_contribution_def)

lemma prompt_payload_add_JStr:
  "prompt_payload_add (JObj [(''payload'', JArr [JObj ((''prompt'', JArr [JStr t]) # rest)])]) (JStr c) =
     Inr (JObj [(''payload'', JArr [JObj ((''prompt'', JArr [JStr (append_contribution t c)]) # rest)])])"
  by (simp add: prompt_payload_add_def Let_def in_item_def in_index_def plus_space_formatted_def
      append_contribution_def)

lemma for_each_text_input:
  "for_each (\<lambda>hc p. case hc of (header, content) \<Rightarrow>
        text_input_payload_add p (create_new_text_input header sys usr txt content))
     (map (\<lambda>hc. (fst hc, JStr (snd hc))) kvs) (JObj [(''text_input'', JArr [JStr t])]) =
   Inr (JObj [(''text_input'', JArr [JStr (foldl append_contribution t
          (map snd (filter (\<lambda>hc. in_roles sys usr txt (fst hc)) kvs)))])])"
proof (induction kvs arbitrary: t)
  case Nil
  then show ?case by simp
next
  case (Cons hc kvs)
  show ?case
  proof (cases "in_roles sys usr txt (fst hc)")
    case True
    then have "create_new_text_input (fst hc) sys usr txt (JStr (snd hc)) = JStr (snd hc)"
      by (simp add: create_new_text_input_def in_roles_def)
    with True Cons.IH [of "append_contribution t (snd hc)"] show ?thesis
      by (simp add: text_input_payload_add_JStr)
  next
    case False
    then have "create_new_text_input (fst hc) sys usr txt (JStr (snd hc)) = JStr []"
      by (simp add: create_new_text_input_def in_roles_def)
    with False Cons.IH [of t] show ?thesis
      by (simp add: text_input_payload_add_JStr append_contribution_def)
  qed
qed

lemma for_each_prompt:
  "for_each (\<lambda>hc p. case hc of (header, content) \<Rightarrow>
        prompt_payload_add p (create_new_prompt header sys usr txt content))
     (map (\<lambda>hc. (fst hc, JStr (snd hc))) kvs)
     (JObj [(''payload'', JArr [JObj [(''prompt'', JArr [JStr t])]])]) =
   Inr (JObj [(''payload'', JArr [JObj [(''prompt'', JArr [JStr (foldl append_contribution t
          (map snd (filter (\<lambda>hc. in_roles sys usr txt (fst hc)) kvs)))])]])])"
proof (induction kvs arbitrary: t)
  case Nil
  then show ?case by simp
next
  case (Cons hc kvs)
  show ?case
  proof (cases "in_roles sys usr txt (fst hc)")
    case True
    then have "create_new_prompt (fst hc) sys usr txt (JStr (snd hc)) = JStr (snd hc)"
      by (simp add: create_new_prompt_def in_roles_def)
    with True Cons.IH [of "append_contribution t (snd hc)"] show ?thesis
      by (simp add: prompt_payload_add_JStr)
  next
    case False
    then have "create_new_prompt (fst hc) sys usr txt (JStr (snd hc)) = JStr []"
      by (simp add: create_new_prompt_def in_roles_def)
    with False Cons.IH [of t] show ?thesis
      by (simp add: prompt_payload_add_JStr append_contribution_def)
  qed
qed

lemma dict_store_fresh: "k \<notin> fst ` set kvs \<Longrightarrow> dict_store k v kvs = kvs @ [(k, v)]"
  by (induction kvs) auto

lemma map_of_dict_store: "map_of (dict_store k v kvs) = (map_of kvs)(k \<mapsto> v)"
  by (induction kvs) (auto simp: fun_eq_iff)

lemma vllm_payload_optional_tags_JObj:
  "''model'' \<notin> fst ` set kvs \<Longrightarrow> ''stream'' \<notin> fst ` set kvs \<Longrightarrow>
   vllm_payload_optional_tags a s n (JObj kvs) =
     Inr (JObj (kvs @ optional_tags a n s (JArr [JBool True])))"
  by (simp add: vllm_payload_optional_tags_def optional_tags_def dict_store_fresh)

lemma openai_payload_optional_tags_JObj:
  "''model'' \<notin> fst ` set kvs \<Longrightarrow> ''stream'' \<notin> fst ` set kvs \<Longrightarrow>
   openai_payload_optional_tags a s n (JObj [(''payload'', JArr [JObj kvs])]) =
     Inr (JObj [(''payload'', JArr [JObj (kvs @ optional_tags a n s (JBool True))])])"
  by (simp add: openai_payload_optional_tags_def optional_tags_def dict_store_fresh
      in_item_def in_index_def)

lemma vllm_payload_row:
  "vllm_payload sys usr txt a s n (row_json kvs) = Inr (vllm_row_payload sys usr txt a s n kvs)"
  by (simp add: vllm_payload_def row_json_def for_each_text_input
      vllm_payload_optional_tags_JObj vllm_row_payload_def row_text_def)

lemma trtllm_payload_row:
  "trtllm_payload sys usr txt a s n (row_json kvs) =
     Inr (trtllm_row_payload sys usr txt a s n kvs)"
  by (simp add: trtllm_payload_def row_json_def for_each_text_input
      vllm_payload_optional_tags_JObj trtllm_row_payload_def row_text_def
      DEFAULT_TRTLLM_MAX_TOKENS_def)

lemma openai_completions_payload_row:
  "openai_completions_payload sys usr txt a s n (row_json kvs) =
     Inr (openai_completions_row_payload sys usr txt a s n kvs)"
  by (simp add: openai_completions_payload_def row_json_def for_each_prompt
      openai_payload_optional_tags_JObj openai_completions_row_payload_def row_text_def)

lemma message_payload_add_message:
  "message_payload_add (JObj [(''payload'', JArr [JObj ((''messages'', JArr ms) # rest)])]) m =
     Inr (JObj [(''payload'', JArr [JObj ((''messages'', JArr (if truthy m then ms @ [m] else ms))
       # rest)])])"
  by (simp add: message_payload_add_def in_item_def in_index_def)

lemma row_messages_Cons:
  "row_messages sys usr (hc # kvs) = row_messages sys usr [hc] @ row_messages sys usr kvs"
  by (simp add: row_messages_def)

lemma message_payload_add_create:
  "message_payload_add (JObj [(''payload'', JArr [JObj [(''messages'', JArr ms)]])])
     (create_new_openai_chat_completions_message h sys usr c) =
   Inr (JObj [(''payload'', JArr [JObj [(''messages'', JArr (ms @ row_messages sys usr [(h, c)]))]])])"
  by (simp add: message_payload_add_message row_messages_def
      create_new_openai_chat_completions_message_def)

lemma for_each_message:
  "for_each (\<lambda>hc p. case hc of (header, content) \<Rightarrow>
        message_payload_add p
          (create_new_openai_chat_completions_message header sys usr content))
     kvs (JObj [(''payload'', JArr [JObj [(''messages'', JArr ms)]])]) =
   Inr (JObj [(''payload'', JArr [JObj [(''messages'', JArr (ms @ row_messages sys usr kvs))]])])"
proof (induction kvs arbitrary: ms)
  case Nil
  then show ?case by (simp add: row_messages_def)
next
  case (Cons hc kvs)
  obtain h c where hc: "hc = (h, c)" by (cases hc)
  show ?case
    using Cons.IH [of "ms @ row_messages sys usr [hc]"]
    by (simp add: hc message_payload_add_create row_messages_Cons [of sys usr "(h, c)" kvs])
qed

lemma openai_chat_completions_payload_row:
  "openai_chat_completions_payload sys usr a s n (JObj kvs) =
     Inr (openai_chat_completions_row_payload sys usr a s n kvs)"
  by (simp add: openai_chat_completions_payload_def for_each_message
      openai_payload_optional_tags_JObj openai_chat_completions_row_payload_def)

lemma get_rows_generic_dataset [simp]:
  "get_item ''rows'' (generic_dataset fs rs) = Inr (JArr rs)"
  by (cases fs) (simp_all add: generic_dataset_def)

lemma populate_openai_chat_completions_output_json_rows:
  "populate_openai_chat_completions_output_json (generic_dataset fs (map JObj rows)) sys usr a s n =
     Inr (payload_collection (map (openai_chat_completions_row_payload sys usr a s n) rows))"
  by (simp add: populate_openai_chat_completions_output_json_collect
      collect_map_Inr [where f = "openai_chat_completions_row_payload sys usr a s n"]
      openai_chat_completions_payload_row)

lemma populate_openai_completions_output_json_rows:
  "populate_openai_completions_output_json (generic_dataset fs (map row_json rows)) sys usr txt a s n =
     Inr (payload_collection (map (openai_completions_row_payload sys usr txt a s n) rows))"
  by (simp add: populate_openai_completions_output_json_collect
      collect_map_Inr [where f = "openai_completions_row_payload sys usr txt a s n"]
      openai_completions_payload_row)

lemma populate_vllm_output_json_rows:
  "populate_vllm_output_json (generic_dataset fs (map row_json rows)) sys usr txt a s n =
     Inr (payload_collection (map (vllm_row_payload sys usr txt a s n) rows))"
  by (simp add: populate_vllm_output_json_collect
      collect_map_Inr [where f = "vllm_row_payload sys usr txt a s n"] vllm_payload_row)

lemma populate_trtllm_output_json_rows:
  "populate_trtllm_output_json (generic_dataset fs (map row_json rows)) sys usr txt a s n =
     Inr (payload_collection (map (trtllm_row_payload sys usr txt a s n) rows))"
  by (simp add: populate_trtllm_output_json_collect
      collect_map_Inr [where f = "trtllm_row_payload sys usr txt a s n"] trtllm_payload_row)

lemma row_messages_append:
  "row_messages sys usr (xs @ ys) = row_messages sys usr xs @ row_messages sys usr ys"
  by (simp add: row_messages_def)

lemma fold_classify_feature:
  "fold classify_feature fs (s, u, t) =
     (s @ filter (\<lambda>f. f = JStr ''system_prompt'') fs,
      u @ filter (\<lambda>f. f = JStr ''question'' \<or> f = JStr ''article'' \<or> f = JStr ''text_input'') fs,
      t)"
  by (induction fs arbitrary: s u)
     (simp_all add: classify_feature_def SYSTEM_ROLE_LIST_def USER_ROLE_LIST_def
        TEXT_INPUT_LIST_def)

lemma determine_json_feature_roles_generic_dataset:
  "determine_json_feature_roles (generic_dataset fs rows) =
     Inr (system_role_features fs, user_role_features fs, [])"
  by (cases fs)
     (simp_all add: determine_json_feature_roles_def generic_dataset_def fold_classify_feature
        system_role_features_def user_role_features_def dataset_features_def)

lemma populate_openai_chat_completions_output_json_row_json:
  "populate_openai_chat_completions_output_json (generic_dataset fs (map row_json rows)) sys usr a s n =
     Inr (payload_collection (map (\<lambda>kvs. openai_chat_completions_row_payload sys usr a s n
            (map (\<lambda>hc. (fst hc, JStr (snd hc))) kvs)) rows))"
proof -
  let ?g = "map (\<lambda>hc. (fst hc, JStr (snd hc)))"
  have "populate_openai_chat_completions_output_json
          (generic_dataset fs (map JObj (map ?g rows))) sys usr a s n =
        Inr (payload_collection (map (openai_chat_completions_row_payload sys usr a s n)
          (map ?g rows)))"
    by (rule populate_openai_chat_completions_output_json_rows)
  moreover have "row_json = (\<lambda>kvs. JObj (?g kvs))"
    by (rule ext) (simp add: row_json_def)
  ultimately show ?thesis
    by (simp add: comp_def)
qed

lemma convert_generic_json_to_output_format_rows:
  "convert_generic_json_to_output_format fmt (generic_dataset fs (map row_json rows)) a s n =
     Inr (payload_collection (map
       (case fmt of
          OPENAI_CHAT_COMPLETIONS \<Rightarrow>
            (\<lambda>kvs. openai_chat_completions_row_payload (system_role_features fs)
               (user_role_features fs) a s n (map (\<lambda>hc. (fst hc, JStr (snd hc))) kvs))
        | OPENAI_COMPLETIONS \<Rightarrow>
            openai_completions_row_payload (system_role_features fs) (user_role_features fs) [] a s n
        | VLLM \<Rightarrow> vllm_row_payload (system_role_features fs) (user_role_features fs) [] a s n
        | TRTLLM \<Rightarrow> trtllm_row_payload (system_role_features fs) (user_role_features fs) [] a s n)
       rows))"
proof (cases fmt)
  case OPENAI_CHAT_COMPLETIONS
  then show ?thesis
    by (simp add: convert_generic_json_to_output_format_def
        convert_generic_json_to_openai_chat_completions_format_def
        determine_json_feature_roles_generic_dataset
        populate_openai_chat_completions_output_json_row_json)
next
  case OPENAI_COMPLETIONS
  then show ?thesis
    by (simp add: convert_generic_json_to_output_format_def
        convert_generic_json_to_openai_completions_format_def
        determine_json_feature_roles_generic_dataset
        populate_openai_completions_output_json_rows)
next
  case TRTLLM
  then show ?thesis
    by (simp add: convert_generic_json_to_output_format_def
        convert_generic_json_to_trtllm_format_def
        determine_json_feature_roles_generic_dataset populate_trtllm_output_json_rows)
next
  case VLLM
  then show ?thesis
    by (simp add: convert_generic_json_to_output_format_def
        convert_generic_json_to_vllm_format_def
        determine_json_feature_roles_generic_dataset populate_vllm_output_json_rows)
qed

lemma get_item_dict_store:
  "get_item k' (JObj (dict_store k v kvs)) = (if k' = k then Inr v else get_item k' (JObj kvs))"
  by (simp add: map_of_dict_store)

lemma collect_Inr_set:
  "collect g xs = Inr ys \<Longrightarrow> y \<in> set ys \<Longrightarrow> \<exists>x \<in> set xs. g x = Inr y"
proof (induction xs arbitrary: ys)
  case Nil
  then show ?case by simp
next
  case (Cons x xs)
  then show ?case
    by (auto simp: and_then_Inr_iff)
qed

lemma vllm_payload_optional_tags_max_tokens:
  "vllm_payload_optional_tags a s n (JObj kvs) = Inr p \<Longrightarrow>
   get_item ''max_tokens'' p = get_item ''max_tokens'' (JObj kvs)"
  by (cases a; cases s)
     (auto simp: vllm_payload_optional_tags_def map_of_dict_store)

lemma trtllm_payload_max_tokens:
  assumes "trtllm_payload sys usr txt a s n e = Inr p"
  shows "get_item ''max_tokens'' p = Inr (JArr [JInt 256])"
proof -
  from assms obtain p1 p2 where
    set: "set_item ''max_tokens'' (JArr [JInt DEFAULT_TRTLLM_MAX_TOKENS]) p1 = Inr p2"
    and opt: "vllm_payload_optional_tags a s n p2 = Inr p"
    by (auto simp: trtllm_payload_def and_then_Inr_iff)
  from set obtain kvs where p2: "p2 = JObj (dict_store ''max_tokens'' (JArr [JInt 256]) kvs)"
    by (cases p1) (auto simp: DEFAULT_TRTLLM_MAX_TOKENS_def)
  from opt show ?thesis
    unfolding p2
    by (simp add: vllm_payload_optional_tags_max_tokens map_of_dict_store)
qed

lemma check_for_valid_args_Inr_iff:
  "check_for_valid_args it dn si len = Inr () \<longleftrightarrow>
     (it = URL \<longrightarrow> dn \<noteq> []) \<and> isinstance_int si \<and> 0 \<le> int_value si
       \<and> isinstance_int len \<and> 1 \<le> int_value len"
  by (auto simp: check_for_valid_args_def check_for_dataset_name_if_input_type_is_url_def
      check_for_valid_starting_index_def check_for_valid_length_def
      MINIMUM_STARTING_INDEX_def MINIMUM_LENGTH_def split: sum.splits)


lemma create_synthetic_prompt_fst:
  "fst (fst (create_synthetic_prompt env m sd e seed w)) =
     fst (fst (generator_create_synthetic_prompt env m sd e (random_seed_fn env seed)))"
  by (simp add: create_synthetic_prompt_def Let_def split: prod.splits)

lemma synthetic_rows_fst:
  "fst (synthetic_rows env m sd e seed is (JObj [(''features'', F), (''rows'', JArr rs)]) w) =
     Inr (JObj [(''features'', F), (''rows'', JArr (rs @ map (\<lambda>i.
       JObj [(''row'', JObj [(''text_input'',
         JStr (fst (fst (generator_create_synthetic_prompt env m sd e
                 (random_seed_fn env (seed + int i))))))])]) is))])"
proof (induction "is" arbitrary: rs w)
  case Nil
  then show ?case by simp
next
  case (Cons i "is")
  obtain p k w' where c: "create_synthetic_prompt env m sd e (seed + int i) w = ((p, k), w')"
    by (metis prod.exhaust)
  then have p: "p = fst (fst (generator_create_synthetic_prompt env m sd e
      (random_seed_fn env (seed + int i))))"
    using create_synthetic_prompt_fst [of env m sd e "seed + int i" w] by simp
  show ?case
    using Cons.IH [of "rs @ [JObj [(''row'', JObj [(''text_input'', JStr p)])]]" w']
    by (simp add: c p in_item_def)
qed

lemma in_item_rows_generic_dataset:
  "in_item ''rows'' (append_to r) (generic_dataset fs acc) = Inr (generic_dataset fs (acc @ [r]))"
  by (cases fs) (simp_all add: generic_dataset_def in_item_def)

lemma collect_Inr_iff: "collect g xs = Inr ys \<longleftrightarrow> map g xs = map Inr ys"
proof (induction xs arbitrary: ys)
  case Nil
  then show ?case by auto
next
  case (Cons x xs)
  show ?case
  proof (cases "g x")
    case (Inl e)
    then show ?thesis by (cases ys) auto
  next
    case (Inr y)
    show ?thesis
    proof (cases "collect g xs")
      case (Inl e)
      with Cons.IH Inr show ?thesis by (cases ys) auto
    next
      case r: (Inr zs)
      with Cons.IH [of zs] Cons.IH Inr show ?thesis by (cases ys) auto
    qed
  qed
qed

lemma collect_Inl_from:
  "x \<in> set xs \<Longrightarrow> g x = Inl e \<Longrightarrow>
     \<exists>y \<in> set xs. \<exists>e'. g y = Inl e' \<and> collect g xs = Inl e'"
proof (induction xs)
  case Nil
  then show ?case by simp
next
  case (Cons a xs)
  show ?case
  proof (cases "g a")
    case (Inl e')
    then show ?thesis by auto
  next
    case (Inr b)
    with Cons have "x \<in> set xs" by auto
    from Cons.IH [OF this Cons.prems(2)] obtain y e' where
      "y \<in> set xs" "g y = Inl e'" "collect g xs = Inl e'" by blast
    with Inr show ?thesis by auto
  qed
qed

lemma get_item_Inl: "get_item k x = Inl e \<Longrightarrow> e = TypeError \<or> e = KeyError (JStr k)"
  by (cases x) (auto split: option.splits)

lemma for_each_features_collect:
  "for_each (\<lambda>feature g. and_then (get_item ''name'' feature)
       (\<lambda>name. in_item ''features'' (append_to name) g))
     ws (JObj [(''features'', JArr acc)]) =
   and_then (collect (get_item ''name'') ws)
     (\<lambda>names. Inr (JObj [(''features'', JArr (acc @ names))]))"
proof (induction ws arbitrary: acc)
  case Nil
  then show ?case by simp
next
  case (Cons f ws)
  show ?case
  proof (cases "get_item ''name'' f")
    case (Inl e)
    then show ?thesis by simp
  next
    case (Inr x)
    show ?thesis
      using Cons.IH [of "acc @ [x]"]
      by (cases "collect (get_item ''name'') ws") (simp_all add: Inr in_item_def)
  qed
qed

lemma for_each_rows_collect:
  "for_each (\<lambda>row g. and_then (get_item ''row'' row) (\<lambda>r. in_item ''rows'' (append_to r) g))
     rs (generic_dataset fs acc) =
   and_then (collect (get_item ''row'') rs) (\<lambda>rows. Inr (generic_dataset fs (acc @ rows)))"
proof (induction rs arbitrary: acc)
  case Nil
  then show ?case by simp
next
  case (Cons r rs)
  show ?case
  proof (cases "get_item ''row'' r")
    case (Inl e)
    then show ?thesis by simp
  next
    case (Inr x)
    show ?thesis
      using Cons.IH [of "acc @ [x]"]
      by (cases "collect (get_item ''row'') rs")
         (simp_all add: Inr in_item_rows_generic_dataset)
  qed
qed

lemma add_rows_to_generic_json_collect:
  assumes "map_of kvs ''rows'' = Some (JArr rs)"
  shows "add_rows_to_generic_json
           (JObj (case fs of None \<Rightarrow> [] | Some names \<Rightarrow> [(''features'', JArr names)])) (JObj kvs) =
         and_then (collect (get_item ''row'') rs) (\<lambda>rows. Inr (generic_dataset fs rows))"
proof -
  have start: "set_item ''rows'' (JArr [])
      (JObj (case fs of None \<Rightarrow> [] | Some names \<Rightarrow> [(''features'', JArr names)])) =
      Inr (generic_dataset fs [])"
    by (cases fs) (simp_all add: generic_dataset_def)
  show ?thesis
    using for_each_rows_collect [of rs fs "[]"]
    by (simp add: add_rows_to_generic_json_def start assms del: set_item.simps)
qed

lemma convert_dataset_to_generic_input_json_collect:
  assumes "map_of kvs ''rows'' = Some (JArr rs)"
    and "map_of kvs ''features'' = map_option JArr fo"
  shows "convert_dataset_to_generic_input_json (JObj kvs) =
     and_then (case fo of None \<Rightarrow> Inr None
               | Some ws \<Rightarrow> and_then (collect (get_item ''name'') ws) (\<lambda>names. Inr (Some names)))
       (\<lambda>fs. and_then (collect (get_item ''row'') rs) (\<lambda>rows. Inr (generic_dataset fs rows)))"
proof (cases fo)
  case None
  with assms(2) have "''features'' \<notin> fst ` set kvs"
    by (simp add: map_of_eq_None_iff)
  then show ?thesis
    using add_rows_to_generic_json_collect [OF assms(1), of None]
    by (simp add: None convert_dataset_to_generic_input_json_def add_features_to_generic_json_def)
next
  case (Some ws)
  with assms(2) have f: "map_of kvs ''features'' = Some (JArr ws)" by simp
  then have key: "''features'' \<in> fst ` set kvs"
    by (metis map_of_eq_None_iff option.distinct(1))
  have feats: "add_features_to_generic_json (JObj []) (JObj kvs) =
      and_then (collect (get_item ''name'') ws) (\<lambda>names. Inr (JObj [(''features'', JArr names)]))"
    using for_each_features_collect [of ws "[]"]
    by (simp add: add_features_to_generic_json_def key f)
  show ?thesis
  proof (cases "collect (get_item ''name'') ws")
    case (Inl e)
    then show ?thesis
      by (simp add: Some convert_dataset_to_generic_input_json_def feats)
  next
    case (Inr names)
    then show ?thesis
      using add_rows_to_generic_json_collect [OF assms(1), of "Some names"]
      by (simp add: Some convert_dataset_to_generic_input_json_def feats)
  qed
qed

lemma collect_Inl_set: "collect g xs = Inl e \<Longrightarrow> \<exists>x \<in> set xs. g x = Inl e"
proof (induction xs)
  case Nil
  then show ?case by simp
next
  case (Cons a xs)
  then show ?case
    by (cases "g a"; cases "collect g xs") auto
qed

lemma collect_get_item_Inl:
  "collect (get_item k) xs = Inl e \<Longrightarrow> e = TypeError \<or> e = KeyError (JStr k)"
  using collect_Inl_set [of "get_item k" xs e] get_item_Inl by blast

section \<open>Claims\<close>

text \<open>
  Claim C1. For every canonical dataset (features, or none, and rows that map headers to
  text), each of the four formatters returns a collection with as many payloads as there
  are rows, and the payload at index \<open>i\<close> is the one payload the same formatter returns,
  with the same features and flags, for the dataset whose only row is row \<open>i\<close>: it
  depends on nothing else of the dataset.
\<close>

theorem one_payload_per_row_in_order:
  "\<exists>ps. convert_generic_json_to_output_format fmt (generic_dataset fs (map row_json rows)) a s n =
          Inr (payload_collection ps)
      \<and> length ps = length rows
      \<and> (\<forall>i<length rows.
            convert_generic_json_to_output_format fmt (generic_dataset fs [row_json (rows ! i)]) a s n =
              Inr (payload_collection [ps ! i]))"
proof -
  let ?f = "case fmt of
      OPENAI_CHAT_COMPLETIONS \<Rightarrow>
        (\<lambda>kvs. openai_chat_completions_row_payload (system_role_features fs)
           (user_role_features fs) a s n (map (\<lambda>hc. (fst hc, JStr (snd hc))) kvs))
    | OPENAI_COMPLETIONS \<Rightarrow>
        openai_completions_row_payload (system_role_features fs) (user_role_features fs) [] a s n
    | VLLM \<Rightarrow> vllm_row_payload (system_role_features fs) (user_role_features fs) [] a s n
    | TRTLLM \<Rightarrow> trtllm_row_payload (system_role_features fs) (user_role_features fs) [] a s n"
  have whole: "convert_generic_json_to_output_format fmt (generic_dataset fs (map row_json rows))
      a s n = Inr (payload_collection (map ?f rows))"
    by (rule convert_generic_json_to_output_format_rows)
  have single: "convert_generic_json_to_output_format fmt (generic_dataset fs [row_json r]) a s n =
      Inr (payload_collection [?f r])" for r
    using convert_generic_json_to_output_format_rows [of fmt fs "[r]" a s n] by simp
  show ?thesis
    by (intro exI [of _ "map ?f rows"]) (simp add: whole single)
qed

theorem one_payload_per_row_in_order_witness:
  "convert_generic_json_to_output_format VLLM
     (generic_dataset (Some [JStr ''question''])
        (map row_json [[(''question'', ''hi'')], [(''id'', ''7''), (''question'', ''yo'')]]))
     False False [] =
   Inr (payload_collection
     [JObj [(''text_input'', JArr [JStr ''hi''])], JObj [(''text_input'', JArr [JStr ''yo''])]])
   \<and> convert_generic_json_to_output_format VLLM
     (generic_dataset (Some [JStr ''question''])
        [row_json ([[(''question'', ''hi'')], [(''id'', ''7''), (''question'', ''yo'')]] ! 1)])
     False False [] =
   Inr (payload_collection [JObj [(''text_input'', JArr [JStr ''yo''])]])"
proof -
  obtain ps where
    whole: "convert_generic_json_to_output_format VLLM
       (generic_dataset (Some [JStr ''question''])
          (map row_json [[(''question'', ''hi'')], [(''id'', ''7''), (''question'', ''yo'')]]))
       False False [] = Inr (payload_collection ps)"
    and len: "length ps = length [[(''question'', ''hi'')], [(''id'', ''7''), (''question'', ''yo'')]]"
    and each: "\<forall>i<length [[(''question'', ''hi'')], [(''id'', ''7''), (''question'', ''yo'')]].
       convert_generic_json_to_output_format VLLM
         (generic_dataset (Some [JStr ''question''])
            [row_json ([[(''question'', ''hi'')], [(''id'', ''7''), (''question'', ''yo'')]] ! i)])
         False False [] = Inr (payload_collection [ps ! i])"
    using one_payload_per_row_in_order [of VLLM "Some [JStr ''question'']"
        "[[(''question'', ''hi'')], [(''id'', ''7''), (''question'', ''yo'')]]" False False "[]"]
    by blast
  have one: "convert_generic_json_to_output_format VLLM
       (generic_dataset (Some [JStr ''question''])
          (map row_json [[(''id'', ''7''), (''question'', ''yo'')]])) False False [] =
     Inr (payload_collection [JObj [(''text_input'', JArr [JStr ''yo''])]])"
    using convert_generic_json_to_output_format_rows [of VLLM "Some [JStr ''question'']"
        "[[(''id'', ''7''), (''question'', ''yo'')]]" False False "[]"]
    by (simp add: vllm_row_payload_def row_text_def
        in_roles_def system_role_features_def user_role_features_def dataset_features_def
        optional_tags_def append_contribution_def)
  have zero: "convert_generic_json_to_output_format VLLM
       (generic_dataset (Some [JStr ''question''])
          (map row_json [[(''question'', ''hi'')]])) False False [] =
     Inr (payload_collection [JObj [(''text_input'', JArr [JStr ''hi''])]])"
    using convert_generic_json_to_output_format_rows [of VLLM "Some [JStr ''question'']"
        "[[(''question'', ''hi'')]]" False False "[]"]
    by (simp add: vllm_row_payload_def row_text_def
        in_roles_def system_role_features_def user_role_features_def dataset_features_def
        optional_tags_def append_contribution_def)
  have e0: "convert_generic_json_to_output_format VLLM
         (generic_dataset (Some [JStr ''question'']) [row_json [(''question'', ''hi'')]])
         False False [] = Inr (payload_collection [ps ! 0])"
    using each [rule_format, of 0] by simp
  have e1: "convert_generic_json_to_output_format VLLM
         (generic_dataset (Some [JStr ''question''])
            [row_json [(''id'', ''7''), (''question'', ''yo'')]])
         False False [] = Inr (payload_collection [ps ! 1])"
    using each [rule_format, of 1] by simp
  from e0 zero have p0: "ps ! 0 = JObj [(''text_input'', JArr [JStr ''hi''])]"
    by (simp add: payload_collection_def)
  from e1 one have p1: "ps ! 1 = JObj [(''text_input'', JArr [JStr ''yo''])]"
    by (simp add: payload_collection_def)
  from len p0 p1 have "ps = [JObj [(''text_input'', JArr [JStr ''hi''])],
      JObj [(''text_input'', JArr [JStr ''yo''])]]"
    by (cases ps; cases "tl ps") auto
  with whole one show ?thesis by simp
qed

text \<open>
  Claim C2. For the completions, VLLM and TRT-LLM formatters and every row of a
  canonical dataset, the text field (\<open>prompt\<close> or \<open>text_input\<close>) is the fold, in the
  row's order, of the values of the headers that belong to a role list: an empty value
  changes nothing, the first non-empty value sets the field verbatim, and a later
  non-empty value is appended after exactly one space. The witness is the claim's
  example: \<open>[a: hello, b: world]\<close> gives \<open>hello world\<close>, and \<open>[a: "", b: world]\<close> gives
  \<open>world\<close> with no leading space.
\<close>

theorem text_field_folds_contributions:
  "populate_openai_completions_output_json (generic_dataset fs (map row_json rows))
       sys usr tx a s n =
     Inr (payload_collection (map (\<lambda>kvs.
       JObj [(''payload'', JArr [JObj ((''prompt'', JArr [JStr (row_text sys usr tx kvs)])
                                      # optional_tags a n s (JBool True))])]) rows))
   \<and> populate_vllm_output_json (generic_dataset fs (map row_json rows)) sys usr tx a s n =
     Inr (payload_collection (map (\<lambda>kvs.
       JObj ((''text_input'', JArr [JStr (row_text sys usr tx kvs)])
             # optional_tags a n s (JArr [JBool True]))) rows))
   \<and> populate_trtllm_output_json (generic_dataset fs (map row_json rows)) sys usr tx a s n =
     Inr (payload_collection (map (\<lambda>kvs.
       JObj ((''text_input'', JArr [JStr (row_text sys usr tx kvs)])
             # (''max_tokens'', JArr [JInt 256])
             # optional_tags a n s (JArr [JBool True]))) rows))
   \<and> row_text sys usr tx kvs =
       foldl (\<lambda>field c. if c = [] then field else if field = [] then c else field @ '' '' @ c) []
         (map snd (filter (\<lambda>hc. JStr (fst hc) \<in> set sys \<or> JStr (fst hc) \<in> set usr
                                 \<or> JStr (fst hc) \<in> set tx) kvs))"
proof (intro conjI)
  show "row_text sys usr tx kvs =
       foldl (\<lambda>field c. if c = [] then field else if field = [] then c else field @ '' '' @ c) []
         (map snd (filter (\<lambda>hc. JStr (fst hc) \<in> set sys \<or> JStr (fst hc) \<in> set usr
                                 \<or> JStr (fst hc) \<in> set tx) kvs))"
    by (simp add: row_text_def append_contribution_def [abs_def] in_roles_def)
qed (simp_all add: populate_openai_completions_output_json_rows populate_vllm_output_json_rows
      populate_trtllm_output_json_rows openai_completions_row_payload_def [abs_def]
      vllm_row_payload_def [abs_def] trtllm_row_payload_def [abs_def])

theorem text_field_folds_contributions_witness:
  "populate_vllm_output_json
     (generic_dataset None
        (map row_json [[(''a'', ''hello''), (''b'', ''world'')], [(''a'', []), (''b'', ''world'')]]))
     [JStr ''a''] [JStr ''b''] [] False False [] =
   Inr (payload_collection
     [JObj [(''text_input'', JArr [JStr ''hello world''])],
      JObj [(''text_input'', JArr [JStr ''world''])]])
   \<and> populate_trtllm_output_json
     (generic_dataset None
        (map row_json [[(''a'', ''hello''), (''b'', ''world'')], [(''a'', []), (''b'', ''world'')]]))
     [JStr ''a''] [JStr ''b''] [] False False [] =
   Inr (payload_collection
     [JObj [(''text_input'', JArr [JStr ''hello world'']), (''max_tokens'', JArr [JInt 256])],
      JObj [(''text_input'', JArr [JStr ''world'']), (''max_tokens'', JArr [JInt 256])]])
   \<and> populate_openai_completions_output_json
     (generic_dataset None
        (map row_json [[(''a'', ''hello''), (''b'', ''world'')], [(''a'', []), (''b'', ''world'')]]))
     [JStr ''a''] [JStr ''b''] [] False False [] =
   Inr (payload_collection
     [JObj [(''payload'', JArr [JObj [(''prompt'', JArr [JStr ''hello world''])]])],
      JObj [(''payload'', JArr [JObj [(''prompt'', JArr [JStr ''world''])]])]])"
  using text_field_folds_contributions [of None
      "[[(''a'', ''hello''), (''b'', ''world'')], [(''a'', []), (''b'', ''world'')]]"
      "[JStr ''a'']" "[JStr ''b'']" "[]" False False "[]" "[]"]
  by (simp add: row_text_def in_roles_def optional_tags_def append_contribution_def)

text \<open>
  Claim C3. In the chat-completions formatter a header whose content is the empty string
  adds no message: \<^verbatim>\<open>_add_new_message_to_json\<close> leaves the output as it is. For every
  row the formatter returns a payload whose messages are one entry per header of the
  system or user role with non-blank content (for text: non-empty), in the row's order;
  when every such header of a row has empty-string content, the messages list is empty
  and the payload is still well formed.
\<close>

theorem blank_content_gives_no_message:
  "add_new_message_to_json pa_json index
       (create_new_openai_chat_completions_message h sys usr (JStr [])) = Inr pa_json
   \<and> populate_openai_chat_completions_output_json (generic_dataset fs (map JObj rows))
         sys usr a s n =
       Inr (payload_collection (map (\<lambda>kvs.
         JObj [(''payload'', JArr [JObj ((''messages'', JArr (row_messages sys usr kvs))
                                        # optional_tags a n s (JBool True))])]) rows))
   \<and> row_messages sys usr (map (\<lambda>hc. (fst hc, JStr (snd hc))) kvs) =
       map (\<lambda>hc. JObj [(''role'', JStr (if JStr (fst hc) \<in> set sys then ''system'' else ''user'')),
                        (''content'', JStr (snd hc))])
         (filter (\<lambda>hc. snd hc \<noteq> [] \<and> (JStr (fst hc) \<in> set sys \<or> JStr (fst hc) \<in> set usr)) kvs)
   \<and> ((\<forall>hc \<in> set kvs'. JStr (fst hc) \<in> set sys \<or> JStr (fst hc) \<in> set usr \<longrightarrow> snd hc = JStr [])
        \<longrightarrow> row_messages sys usr kvs' = [])"
proof (intro conjI impI)
  show "add_new_message_to_json pa_json index
       (create_new_openai_chat_completions_message h sys usr (JStr [])) = Inr pa_json"
    by (simp add: add_new_message_to_json_def create_new_openai_chat_completions_message_def)
  show "populate_openai_chat_completions_output_json (generic_dataset fs (map JObj rows))
         sys usr a s n =
       Inr (payload_collection (map (\<lambda>kvs.
         JObj [(''payload'', JArr [JObj ((''messages'', JArr (row_messages sys usr kvs))
                                        # optional_tags a n s (JBool True))])]) rows))"
    by (simp add: populate_openai_chat_completions_output_json_rows
        openai_chat_completions_row_payload_def [abs_def])
  show "row_messages sys usr (map (\<lambda>hc. (fst hc, JStr (snd hc))) kvs) =
       map (\<lambda>hc. JObj [(''role'', JStr (if JStr (fst hc) \<in> set sys then ''system'' else ''user'')),
                        (''content'', JStr (snd hc))])
         (filter (\<lambda>hc. snd hc \<noteq> [] \<and> (JStr (fst hc) \<in> set sys \<or> JStr (fst hc) \<in> set usr)) kvs)"
    by (simp add: row_messages_def filter_map comp_def)
next
  assume "\<forall>hc \<in> set kvs'. JStr (fst hc) \<in> set sys \<or> JStr (fst hc) \<in> set usr \<longrightarrow> snd hc = JStr []"
  then have "filter (\<lambda>hc. truthy (snd hc) \<and> (JStr (fst hc) \<in> set sys \<or> JStr (fst hc) \<in> set usr))
      kvs' = []"
    by (auto simp: filter_empty_conv)
  then show "row_messages sys usr kvs' = []"
    by (simp add: row_messages_def)
qed

theorem blank_content_gives_no_message_witness:
  "populate_openai_chat_completions_output_json
     (generic_dataset None
        (map JObj [[(''id'', JStr ''7''), (''question'', JStr [])],
                   [(''system_prompt'', JStr ''be brief''), (''question'', JStr ''why'')]]))
     [JStr ''system_prompt''] [JStr ''question''] False False [] =
   Inr (payload_collection
     [JObj [(''payload'', JArr [JObj [(''messages'', JArr [])]])],
      JObj [(''payload'', JArr [JObj [(''messages'', JArr
         [JObj [(''role'', JStr ''system''), (''content'', JStr ''be brief'')],
          JObj [(''role'', JStr ''user''), (''content'', JStr ''why'')]])]])]])
   \<and> row_messages [JStr ''system_prompt''] [JStr ''question'']
        [(''id'', JStr ''7''), (''question'', JStr [])] = []"
  using blank_content_gives_no_message [of JNull 0 "[]" "[JStr ''system_prompt'']"
      "[JStr ''question'']" None
      "[[(''id'', JStr ''7''), (''question'', JStr [])],
        [(''system_prompt'', JStr ''be brief''), (''question'', JStr ''why'')]]"
      False False "[]" "[]" "[(''id'', JStr ''7''), (''question'', JStr [])]"]
  by (simp add: row_messages_def optional_tags_def)

text \<open>
  Claim C4. For the TRT-LLM format, whatever the dataset and the two flags, a collection
  that the formatter returns has \<open>max_tokens\<close> equal to the one-element list \<open>[256]\<close> in
  every payload. For a canonical dataset the formatter returns, and each payload is the
  text field, then \<open>max_tokens\<close>, then the optional fields \<open>model\<close> and \<open>stream\<close>: a
  dictionary keeps insertion order, so \<open>max_tokens\<close> is stored before the optional fields.
\<close>

theorem trtllm_max_tokens_always_set:
  "(convert_generic_json_to_output_format TRTLLM d a s n = Inr out \<longrightarrow>
      (\<exists>ps. out = payload_collection ps
         \<and> (\<forall>p \<in> set ps. get_item ''max_tokens'' p = Inr (JArr [JInt 256]))))
   \<and> convert_generic_json_to_output_format TRTLLM (generic_dataset fs (map row_json rows)) a s n =
       Inr (payload_collection (map (\<lambda>kvs.
         JObj ((''text_input'',
                 JArr [JStr (row_text (system_role_features fs) (user_role_features fs) [] kvs)])
               # (''max_tokens'', JArr [JInt 256])
               # optional_tags a n s (JArr [JBool True]))) rows))"
proof (intro conjI impI)
  assume "convert_generic_json_to_output_format TRTLLM d a s n = Inr out"
  then obtain sys usr tx es ps where
    c: "collect (trtllm_payload sys usr tx a s n) es = Inr ps" and out: "out = payload_collection ps"
    by (auto simp: convert_generic_json_to_output_format_def
        convert_generic_json_to_trtllm_format_def populate_trtllm_output_json_collect
        and_then_Inr_iff)
  have "\<forall>p \<in> set ps. get_item ''max_tokens'' p = Inr (JArr [JInt 256])"
    using collect_Inr_set [OF c] trtllm_payload_max_tokens by blast
  with out show "\<exists>ps. out = payload_collection ps
         \<and> (\<forall>p \<in> set ps. get_item ''max_tokens'' p = Inr (JArr [JInt 256]))"
    by blast
next
  show "convert_generic_json_to_output_format TRTLLM (generic_dataset fs (map row_json rows)) a s n =
       Inr (payload_collection (map (\<lambda>kvs.
         JObj ((''text_input'',
                 JArr [JStr (row_text (system_role_features fs) (user_role_features fs) [] kvs)])
               # (''max_tokens'', JArr [JInt 256])
               # optional_tags a n s (JArr [JBool True]))) rows))"
    using convert_generic_json_to_output_format_rows [of TRTLLM fs rows a s n]
    by (simp add: trtllm_row_payload_def [abs_def])
qed

theorem trtllm_max_tokens_always_set_witness:
  "convert_generic_json_to_output_format TRTLLM
     (generic_dataset (Some [JStr ''text_input'']) (map row_json [[(''text_input'', ''hi'')]]))
     False False ''m'' =
     Inr (payload_collection
       [JObj [(''text_input'', JArr [JStr ''hi'']), (''max_tokens'', JArr [JInt 256])]])
   \<and> convert_generic_json_to_output_format TRTLLM
     (generic_dataset (Some [JStr ''text_input'']) (map row_json [[(''text_input'', ''hi'')]]))
     True False ''m'' =
     Inr (payload_collection
       [JObj [(''text_input'', JArr [JStr ''hi'']), (''max_tokens'', JArr [JInt 256]),
              (''model'', JStr ''m'')]])
   \<and> convert_generic_json_to_output_format TRTLLM
     (generic_dataset (Some [JStr ''text_input'']) (map row_json [[(''text_input'', ''hi'')]]))
     False True ''m'' =
     Inr (payload_collection
       [JObj [(''text_input'', JArr [JStr ''hi'']), (''max_tokens'', JArr [JInt 256]),
              (''stream'', JArr [JBool True])]])
   \<and> convert_generic_json_to_output_format TRTLLM
     (generic_dataset (Some [JStr ''text_input'']) (map row_json [[(''text_input'', ''hi'')]]))
     True True ''m'' =
     Inr (payload_collection
       [JObj [(''text_input'', JArr [JStr ''hi'']), (''max_tokens'', JArr [JInt 256]),
              (''model'', JStr ''m''), (''stream'', JArr [JBool True])]])"
  using trtllm_max_tokens_always_set [of JNull False False "''m''" JNull
      "Some [JStr ''text_input'']" "[[(''text_input'', ''hi'')]]"]
    trtllm_max_tokens_always_set [of JNull True False "''m''" JNull
      "Some [JStr ''text_input'']" "[[(''text_input'', ''hi'')]]"]
    trtllm_max_tokens_always_set [of JNull False True "''m''" JNull
      "Some [JStr ''text_input'']" "[[(''text_input'', ''hi'')]]"]
    trtllm_max_tokens_always_set [of JNull True True "''m''" JNull
      "Some [JStr ''text_input'']" "[[(''text_input'', ''hi'')]]"]
  by (simp add: row_text_def in_roles_def system_role_features_def user_role_features_def
      dataset_features_def optional_tags_def append_contribution_def)

text \<open>
  Claim C5. Validation accepts exactly the arguments in which \<open>starting_index\<close> is an
  instance of \<^verbatim>\<open>int\<close> with value at least 0, \<open>length\<close> is an instance of \<^verbatim>\<open>int\<close> with
  value at least 1 and, for a URL input source, the dataset name is not empty. Otherwise
  it raises the exception of the first check that fails, in the order dataset name,
  starting index, length, wrapped once by \<^verbatim>\<open>_check_for_valid_args\<close>; the messages are
  those of the source, written out below. \<^verbatim>\<open>create_llm_inputs\<close> then raises that same
  exception and the world is as before the call: no request was sent, the output file
  was not written, the random generator was not touched. The exception is specific to
  the violation in every branch but one: for an integer length below 1 the message of
  \<^verbatim>\<open>_check_for_valid_length\<close> names \<open>starting_index\<close>, where its other branch names
  \<open>length\<close>. The evaluation after the theorem runs the entry point on a length of 0, on a
  starting index of \<open>-1\<close> and on a length that is not an integer.
\<close>

theorem validation_raises_by_first_failed_check:
  "check_for_valid_args it dn si len =
     (if it = URL \<and> dn = [] then
        Inl (GenAIPerfException (Cause (GenAIPerfException (Arg (JStr
          ''Input type is URL, but dataset_name is not specified.'')))))
      else if \<not> isinstance_int si then
        Inl (GenAIPerfException (Cause (GenAIPerfException (Arg (JStr
          (''starting_index: '' @ str_arg si @ '' must be an integer.''))))))
      else if int_value si < 0 then
        Inl (GenAIPerfException (Cause (GenAIPerfException (Arg (JStr
          (''starting_index: '' @ str_arg si @ '' must be larger than 0.''))))))
      else if \<not> isinstance_int len then
        Inl (GenAIPerfException (Cause (GenAIPerfException (Arg (JStr
          (''length: '' @ str_arg len @ '' must be an integer.''))))))
      else if int_value len < 1 then
        Inl (GenAIPerfException (Cause (GenAIPerfException (Arg (JStr
          (''starting_index: '' @ str_arg len @ '' must be larger than 1.''))))))
      else Inr ())
   \<and> (check_for_valid_args it dn si len = Inr () \<longleftrightarrow>
        (it = URL \<longrightarrow> dn \<noteq> []) \<and> isinstance_int si \<and> 0 \<le> int_value si
          \<and> isinstance_int len \<and> 1 \<le> int_value len)
   \<and> (check_for_valid_args (input_type a) (dataset_name a) (starting_index a) (length_arg a) = Inl e
        \<longrightarrow> create_llm_inputs env a w = (Inl e, w))"
proof (intro conjI impI)
  show "check_for_valid_args it dn si len =
     (if it = URL \<and> dn = [] then
        Inl (GenAIPerfException (Cause (GenAIPerfException (Arg (JStr
          ''Input type is URL, but dataset_name is not specified.'')))))
      else if \<not> isinstance_int si then
        Inl (GenAIPerfException (Cause (GenAIPerfException (Arg (JStr
          (''starting_index: '' @ str_arg si @ '' must be an integer.''))))))
      else if int_value si < 0 then
        Inl (GenAIPerfException (Cause (GenAIPerfException (Arg (JStr
          (''starting_index: '' @ str_arg si @ '' must be larger than 0.''))))))
      else if \<not> isinstance_int len then
        Inl (GenAIPerfException (Cause (GenAIPerfException (Arg (JStr
          (''length: '' @ str_arg len @ '' must be an integer.''))))))
      else if int_value len < 1 then
        Inl (GenAIPerfException (Cause (GenAIPerfException (Arg (JStr
          (''starting_index: '' @ str_arg len @ '' must be larger than 1.''))))))
      else Inr ())"
    by (simp add: check_for_valid_args_def check_for_dataset_name_if_input_type_is_url_def
        check_for_valid_starting_index_def check_for_valid_length_def
        MINIMUM_STARTING_INDEX_def MINIMUM_LENGTH_def str_int_def)
  show "check_for_valid_args it dn si len = Inr () \<longleftrightarrow>
        (it = URL \<longrightarrow> dn \<noteq> []) \<and> isinstance_int si \<and> 0 \<le> int_value si
          \<and> isinstance_int len \<and> 1 \<le> int_value len"
    by (rule check_for_valid_args_Inr_iff)
next
  assume "check_for_valid_args (input_type a) (dataset_name a) (starting_index a) (length_arg a)
      = Inl e"
  then show "create_llm_inputs env a w = (Inl e, w)"
    by (simp add: create_llm_inputs_def)
qed

theorem validation_raises_by_first_failed_check_witness:
  "create_llm_inputs example_environment
        ((default_arguments URL VLLM)\<lparr>dataset_name := ''openorca'', length_arg := AInt 0\<rparr>)
        example_world =
      (Inl (GenAIPerfException (Cause (GenAIPerfException (Arg (JStr
         ''starting_index: 0 must be larger than 1.''))))), example_world)
   \<and> create_llm_inputs example_environment
        ((default_arguments URL VLLM)\<lparr>dataset_name := ''openorca'', starting_index := AInt (- 1)\<rparr>)
        example_world =
      (Inl (GenAIPerfException (Cause (GenAIPerfException (Arg (JStr
         ''starting_index: -1 must be larger than 0.''))))), example_world)
   \<and> create_llm_inputs example_environment
        ((default_arguments URL VLLM)\<lparr>dataset_name := ''openorca'',
           length_arg := AOther ''1.5''\<rparr>)
        example_world =
      (Inl (GenAIPerfException (Cause (GenAIPerfException (Arg (JStr
         ''length: 1.5 must be an integer.''))))), example_world)"
proof -
  let ?a = "(default_arguments URL VLLM)\<lparr>dataset_name := ''openorca'', length_arg := AInt 0\<rparr>"
  let ?b = "(default_arguments URL VLLM)\<lparr>dataset_name := ''openorca'',
      starting_index := AInt (- 1)\<rparr>"
  let ?c = "(default_arguments URL VLLM)\<lparr>dataset_name := ''openorca'',
      length_arg := AOther ''1.5''\<rparr>"
  note t = validation_raises_by_first_failed_check
  have a: "check_for_valid_args (input_type ?a) (dataset_name ?a) (starting_index ?a)
      (length_arg ?a) = Inl (GenAIPerfException (Cause (GenAIPerfException (Arg (JStr
         ''starting_index: 0 must be larger than 1.'')))))"
    using t [of "input_type ?a" "dataset_name ?a" "starting_index ?a" "length_arg ?a",
        THEN conjunct1]
    by (simp add: default_arguments_def DEFAULT_STARTING_INDEX_def str_int_def)
  have b: "check_for_valid_args (input_type ?b) (dataset_name ?b) (starting_index ?b)
      (length_arg ?b) = Inl (GenAIPerfException (Cause (GenAIPerfException (Arg (JStr
         ''starting_index: -1 must be larger than 0.'')))))"
    using t [of "input_type ?b" "dataset_name ?b" "starting_index ?b" "length_arg ?b",
        THEN conjunct1]
    by (simp add: default_arguments_def str_int_def)
  have c: "check_for_valid_args (input_type ?c) (dataset_name ?c) (starting_index ?c)
      (length_arg ?c) = Inl (GenAIPerfException (Cause (GenAIPerfException (Arg (JStr
         ''length: 1.5 must be an integer.'')))))"
    using t [of "input_type ?c" "dataset_name ?c" "starting_index ?c" "length_arg ?c",
        THEN conjunct1]
    by (simp add: default_arguments_def DEFAULT_STARTING_INDEX_def)
  show ?thesis
    using t [THEN conjunct2, THEN conjunct2, rule_format, OF a, of example_environment example_world]
      t [THEN conjunct2, THEN conjunct2, rule_format, OF b, of example_environment example_world]
      t [THEN conjunct2, THEN conjunct2, rule_format, OF c, of example_environment example_world]
    by simp
qed

text \<open>
  Claim C6, amended. For a raw dataset with a list under \<open>rows\<close> and, when the key is
  present, a list under \<open>features\<close>, normalisation subscripts every feature with \<open>name\<close>
  and then every row with \<open>row\<close>. When every feature and every row has its wrapper, the
  result is the generic dataset whose features are the \<open>name\<close> values and whose rows are
  the \<open>row\<close> values, in order. When one has not, normalisation raises the exception of the
  first subscript that fails: \<^verbatim>\<open>TypeError\<close> for a value that is not an object, such as
  a bare name, \<^verbatim>\<open>KeyError\<close> for an object without the key. Without a key \<open>features\<close>
  the generic dataset has no key \<open>features\<close> either, and role classification then returns
  three empty lists. The counterexample shows what the claim as stated gets wrong: a
  feature that is a bare name raises \<^verbatim>\<open>TypeError\<close>, a row without the wrapper raises
  \<^verbatim>\<open>KeyError\<close>, and a dataset without features yields no features entry rather than an
  empty list.
\<close>

theorem normalisation_unwraps_or_raises:
  assumes "map_of kvs ''rows'' = Some (JArr rs)"
    and "map_of kvs ''features'' = map_option JArr fo"
  shows "convert_dataset_to_generic_input_json (JObj kvs) =
           and_then (case fo of None \<Rightarrow> Inr None
                     | Some ws \<Rightarrow> and_then (collect (get_item ''name'') ws)
                                  (\<lambda>names. Inr (Some names)))
             (\<lambda>fs. and_then (collect (get_item ''row'') rs)
                (\<lambda>rows. Inr (generic_dataset fs rows)))
       \<and> (map (get_item ''row'') rs = map Inr rows
            \<and> (case fo of None \<Rightarrow> fs = None
                | Some ws \<Rightarrow> \<exists>names. map (get_item ''name'') ws = map Inr names \<and> fs = Some names)
          \<longrightarrow> convert_dataset_to_generic_input_json (JObj kvs) = Inr (generic_dataset fs rows))
       \<and> (\<forall>ws x e. fo = Some ws \<and> x \<in> set ws \<and> get_item ''name'' x = Inl e
          \<longrightarrow> convert_dataset_to_generic_input_json (JObj kvs) = Inl TypeError
              \<or> convert_dataset_to_generic_input_json (JObj kvs) = Inl (KeyError (JStr ''name'')))
       \<and> (\<forall>x e. x \<in> set rs \<and> get_item ''row'' x = Inl e
          \<longrightarrow> convert_dataset_to_generic_input_json (JObj kvs) = Inl TypeError
              \<or> convert_dataset_to_generic_input_json (JObj kvs) = Inl (KeyError (JStr ''name''))
              \<or> convert_dataset_to_generic_input_json (JObj kvs) = Inl (KeyError (JStr ''row'')))
       \<and> (\<forall>k s. get_item k (JStr s) = Inl TypeError)
       \<and> (\<forall>k kvs'. k \<notin> fst ` set kvs' \<longrightarrow> get_item k (JObj kvs') = Inl (KeyError (JStr k)))
       \<and> determine_json_feature_roles (generic_dataset None rows) = Inr ([], [], [])"
proof -
  let ?names = "case fo of None \<Rightarrow> Inr None
      | Some ws \<Rightarrow> and_then (collect (get_item ''name'') ws) (\<lambda>names. Inr (Some names))"
  have whole: "convert_dataset_to_generic_input_json (JObj kvs) =
      and_then ?names (\<lambda>fs. and_then (collect (get_item ''row'') rs)
        (\<lambda>rows. Inr (generic_dataset fs rows)))"
    by (rule convert_dataset_to_generic_input_json_collect [OF assms])
  have wrapped: "convert_dataset_to_generic_input_json (JObj kvs) = Inr (generic_dataset fs rows)"
    if "map (get_item ''row'') rs = map Inr rows"
      and "case fo of None \<Rightarrow> fs = None
           | Some ws \<Rightarrow> \<exists>names. map (get_item ''name'') ws = map Inr names \<and> fs = Some names"
  proof -
    from that(1) have r: "collect (get_item ''row'') rs = Inr rows"
      by (simp add: collect_Inr_iff)
    from that(2) have "?names = Inr fs"
      by (cases fo) (auto simp: collect_Inr_iff [symmetric])
    with r show ?thesis by (simp add: whole)
  qed
  have names_err: "?names = Inl e \<Longrightarrow> e = TypeError \<or> e = KeyError (JStr ''name'')" for e
    by (cases fo) (auto simp: and_then_def dest: collect_get_item_Inl split: sum.splits)
  have feature: "convert_dataset_to_generic_input_json (JObj kvs) = Inl TypeError
      \<or> convert_dataset_to_generic_input_json (JObj kvs) = Inl (KeyError (JStr ''name''))"
    if "fo = Some ws" and "x \<in> set ws" and "get_item ''name'' x = Inl e" for ws x e
  proof -
    from collect_Inl_from [of x ws "get_item ''name''" e, OF that(2,3)] obtain e' where
      c: "collect (get_item ''name'') ws = Inl e'" by blast
    then have "e' = TypeError \<or> e' = KeyError (JStr ''name'')"
      by (rule collect_get_item_Inl)
    with c that(1) show ?thesis by (auto simp: whole)
  qed
  have row: "convert_dataset_to_generic_input_json (JObj kvs) = Inl TypeError
      \<or> convert_dataset_to_generic_input_json (JObj kvs) = Inl (KeyError (JStr ''name''))
      \<or> convert_dataset_to_generic_input_json (JObj kvs) = Inl (KeyError (JStr ''row''))"
    if "x \<in> set rs" and "get_item ''row'' x = Inl e" for x e
  proof (cases ?names)
    case (Inl e1)
    with names_err [OF Inl] show ?thesis by (auto simp: whole)
  next
    case (Inr fs')
    from collect_Inl_from [of x rs "get_item ''row''" e, OF that] obtain e' where
      c: "collect (get_item ''row'') rs = Inl e'" by blast
    then have "e' = TypeError \<or> e' = KeyError (JStr ''row'')"
      by (rule collect_get_item_Inl)
    with c Inr show ?thesis by (auto simp: whole)
  qed
  have bare: "\<forall>k s. get_item k (JStr s) = Inl TypeError"
    by simp
  have nokey: "\<forall>k kvs'. k \<notin> fst ` set kvs' \<longrightarrow> get_item k (JObj kvs') = Inl (KeyError (JStr k))"
    by (simp add: map_of_eq_None_iff [THEN iffD2])
  have roles: "determine_json_feature_roles (generic_dataset None rows) = Inr ([], [], [])"
    by (simp add: determine_json_feature_roles_generic_dataset system_role_features_def
        user_role_features_def dataset_features_def)
  from whole wrapped feature row bare nokey roles show ?thesis
    by blast
qed

theorem normalisation_unwraps_or_raises_witness:
  "convert_dataset_to_generic_input_json
     (JObj [(''features'', JArr [JObj [(''feature_idx'', JInt 0), (''name'', JStr ''question'')]]),
            (''rows'', JArr [JObj [(''row_idx'', JInt 0),
                                   (''row'', JObj [(''question'', JStr ''why'')])]])]) =
     Inr (JObj [(''features'', JArr [JStr ''question'']),
                (''rows'', JArr [JObj [(''question'', JStr ''why'')]])])
   \<and> convert_dataset_to_generic_input_json
     (JObj [(''rows'', JArr [JObj [(''row'', JObj [(''question'', JStr ''why'')])]])]) =
     Inr (JObj [(''rows'', JArr [JObj [(''question'', JStr ''why'')]])])
   \<and> convert_dataset_to_generic_input_json
     (JObj [(''features'', JArr [JObj [(''name'', JStr ''question'')], JStr ''article'']),
            (''rows'', JArr [JObj [(''row'', JObj [(''question'', JStr ''why'')])]])]) =
     Inl TypeError"
proof -
  have a: "map_of [(''features'', JArr [JObj [(''feature_idx'', JInt 0), (''name'', JStr ''question'')]]),
            (''rows'', JArr [JObj [(''row_idx'', JInt 0),
                                   (''row'', JObj [(''question'', JStr ''why'')])]])] ''features'' =
      map_option JArr (Some [JObj [(''feature_idx'', JInt 0), (''name'', JStr ''question'')]])"
    by simp
  have b: "map_of [(''rows'', JArr [JObj [(''row'', JObj [(''question'', JStr ''why'')])]])]
      ''features'' = map_option JArr None"
    by simp
  have c: "map_of [(''features'', JArr [JObj [(''name'', JStr ''question'')], JStr ''article'']),
            (''rows'', JArr [JObj [(''row'', JObj [(''question'', JStr ''why'')])]])] ''features'' =
      map_option JArr (Some [JObj [(''name'', JStr ''question'')], JStr ''article''])"
    by simp
  show ?thesis
    using normalisation_unwraps_or_raises [OF _ a, THEN conjunct1]
      normalisation_unwraps_or_raises [OF _ b, THEN conjunct1]
      normalisation_unwraps_or_raises [OF _ c, THEN conjunct1]
    by (simp add: generic_dataset_def)
qed

theorem unwrapped_or_missing_features_counterexample:
  "convert_dataset_to_generic_input_json
     (JObj [(''features'', JArr [JStr ''question'']),
            (''rows'', JArr [JObj [(''row'', JObj [(''question'', JStr ''why'')])]])]) =
     Inl TypeError
   \<and> convert_dataset_to_generic_input_json
     (JObj [(''features'', JArr [JObj [(''name'', JStr ''question'')]]),
            (''rows'', JArr [JObj [(''question'', JStr ''why'')]])]) =
     Inl (KeyError (JStr ''row''))
   \<and> convert_dataset_to_generic_input_json (JObj [(''rows'', JArr [])]) =
     Inr (JObj [(''rows'', JArr [])])
   \<and> get_item ''features'' (JObj [(''rows'', JArr [])]) = Inl (KeyError (JStr ''features''))"
  by (simp add: convert_dataset_to_generic_input_json_def add_features_to_generic_json_def
      add_rows_to_generic_json_def in_item_def)

text \<open>
  Claim C7. Role classification returns for every list of features (and for a dataset
  without the key \<^verbatim>\<open>features\<close>), never an exception. The system-role list holds the
  features named \<open>system_prompt\<close>, the user-role list those named \<open>question\<close>,
  \<open>article\<close> or \<open>text_input\<close>, in the order of the features; a feature outside this
  vocabulary is in neither list, a feature \<open>text_input\<close> is in the user-role list, and the
  third list, \<^verbatim>\<open>text_input_headers\<close>, is empty for every input.
\<close>

theorem determine_json_feature_roles_total:
  "\<exists>sys usr. determine_json_feature_roles (generic_dataset fs rows) = Inr (sys, usr, [])
     \<and> sys = filter (\<lambda>f. f = JStr ''system_prompt'') (dataset_features fs)
     \<and> usr = filter (\<lambda>f. f = JStr ''question'' \<or> f = JStr ''article'' \<or> f = JStr ''text_input'')
               (dataset_features fs)
     \<and> (\<forall>f. f \<notin> {JStr ''system_prompt'', JStr ''question'', JStr ''article'', JStr ''text_input''}
            \<longrightarrow> f \<notin> set sys \<and> f \<notin> set usr)
     \<and> (JStr ''text_input'' \<in> set (dataset_features fs) \<longrightarrow> JStr ''text_input'' \<in> set usr)"
  by (simp add: determine_json_feature_roles_generic_dataset system_role_features_def
      user_role_features_def)

theorem determine_json_feature_roles_total_witness:
  "determine_json_feature_roles
     (generic_dataset (Some [JStr ''id'', JStr ''text_input'', JStr ''system_prompt'', JInt 3]) []) =
     Inr ([JStr ''system_prompt''], [JStr ''text_input''], [])
   \<and> determine_json_feature_roles (generic_dataset None []) = Inr ([], [], [])"
  using determine_json_feature_roles_total
      [of "Some [JStr ''id'', JStr ''text_input'', JStr ''system_prompt'', JInt 3]" "[]"]
    determine_json_feature_roles_total [of None "[]"]
  by (auto simp: dataset_features_def)

text \<open>
  Claim C8. The synthetic dataset does not depend on the state of the world in which it
  is generated: its row at index \<open>i\<close>, for \<open>0 \<le> i < num_of_output_prompts\<close>, holds the
  prompt that the generator returns from the state \<^verbatim>\<open>random.seed(random_seed + i)\<close>
  sets, so two calls with the same five arguments give the same sequence of prompts.
\<close>

theorem synthetic_prompts_are_deterministic:
  "fst (get_input_dataset_from_synthetic env m sd e n seed w) =
     Inr (JObj [(''features'', JArr [JObj [(''name'', JStr ''text_input'')]]),
                (''rows'', JArr (map (\<lambda>i.
                   JObj [(''row'', JObj [(''text_input'',
                     JStr (fst (fst (generator_create_synthetic_prompt env m sd e
                             (random_seed_fn env (seed + int i))))))])])
                   [0 ..< nat n]))])
   \<and> fst (get_input_dataset_from_synthetic env m sd e n seed w) =
       fst (get_input_dataset_from_synthetic env m sd e n seed w')"
  by (simp add: get_input_dataset_from_synthetic_def synthetic_rows_fst)

theorem synthetic_prompts_are_deterministic_witness:
  "fst (get_input_dataset_from_synthetic example_environment 550 0 150 3 7 example_world) =
     Inr (JObj [(''features'', JArr [JObj [(''name'', JStr ''text_input'')]]),
                (''rows'', JArr
                   [JObj [(''row'', JObj [(''text_input'', JStr ''7'')])],
                    JObj [(''row'', JObj [(''text_input'', JStr ''8'')])],
                    JObj [(''row'', JObj [(''text_input'', JStr ''9'')])]])])
   \<and> fst (get_input_dataset_from_synthetic example_environment 550 0 150 3 7 example_world) =
       fst (get_input_dataset_from_synthetic example_environment 550 0 150 3 7
              (example_world\<lparr>random_state := 42\<rparr>))"
proof -
  note inst = synthetic_prompts_are_deterministic [of example_environment 550 0 150 3 7
      example_world "example_world\<lparr>random_state := 42\<rparr>"]
  have upt: "[0 ..< (3::nat)] = [0, 1, 2]"
    by (simp add: upt_rec)
  have gen: "fst (fst (generator_create_synthetic_prompt example_environment 550 0 150
      (random_seed_fn example_environment k))) = str_int k" for k
    by (simp add: example_environment_def)
  have "fst (get_input_dataset_from_synthetic example_environment 550 0 150 3 7 example_world) =
     Inr (JObj [(''features'', JArr [JObj [(''name'', JStr ''text_input'')]]),
                (''rows'', JArr
                   [JObj [(''row'', JObj [(''text_input'', JStr ''7'')])],
                    JObj [(''row'', JObj [(''text_input'', JStr ''8'')])],
                    JObj [(''row'', JObj [(''text_input'', JStr ''9'')])]])])"
    using inst [THEN conjunct1] by (simp add: upt gen str_int_def)
  then show ?thesis
    using inst [THEN conjunct2] by (intro conjI)
qed




text \<open>
  Claim C10. In the chat-completions formatter, a header that is in both the system-role
  list and the user-role list gives, whenever its content is not blank, exactly one
  message, with the role \<open>system\<close>: that is what
  \<^verbatim>\<open>_create_new_openai_chat_completions_message\<close> returns for it, and in the payload of
  every row that contains the header the messages are those of the headers before it,
  this one message, and those of the headers after it.
\<close>

theorem system_role_precedes_user_role:
  assumes "JStr h \<in> set sys" and "JStr h \<in> set usr" and "truthy c"
    and "i < length rows" and "rows ! i = before @ [(h, c)] @ after"
  shows "create_new_openai_chat_completions_message h sys usr c =
           JObj [(''role'', JStr ''system''), (''content'', c)]
       \<and> (\<exists>ps. populate_openai_chat_completions_output_json (generic_dataset fs (map JObj rows))
                  sys usr a s n = Inr (payload_collection ps)
              \<and> and_then (get_item ''payload'' (ps ! i)) (\<lambda>pl. and_then (get_index 0 pl)
                    (get_item ''messages'')) =
                  Inr (JArr (row_messages sys usr before
                             @ [JObj [(''role'', JStr ''system''), (''content'', c)]]
                             @ row_messages sys usr after)))"
proof
  show "create_new_openai_chat_completions_message h sys usr c =
           JObj [(''role'', JStr ''system''), (''content'', c)]"
    using assms(1,3) by (simp add: create_new_openai_chat_completions_message_def)
next
  have one: "row_messages sys usr [(h, c)] = [JObj [(''role'', JStr ''system''), (''content'', c)]]"
    using assms(1,3) by (simp add: row_messages_def)
  have "and_then (get_item ''payload''
            (map (openai_chat_completions_row_payload sys usr a s n) rows ! i))
          (\<lambda>pl. and_then (get_index 0 pl) (get_item ''messages'')) =
        Inr (JArr (row_messages sys usr before
                   @ [JObj [(''role'', JStr ''system''), (''content'', c)]]
                   @ row_messages sys usr after))"
    using assms(4,5)
    by (simp add: openai_chat_completions_row_payload_def row_messages_append one
        row_messages_Cons [of sys usr "(h, c)" after])
  then show "\<exists>ps. populate_openai_chat_completions_output_json (generic_dataset fs (map JObj rows))
                  sys usr a s n = Inr (payload_collection ps)
              \<and> and_then (get_item ''payload'' (ps ! i)) (\<lambda>pl. and_then (get_index 0 pl)
                    (get_item ''messages'')) =
                  Inr (JArr (row_messages sys usr before
                             @ [JObj [(''role'', JStr ''system''), (''content'', c)]]
                             @ row_messages sys usr after))"
    by (intro exI [of _ "map (openai_chat_completions_row_payload sys usr a s n) rows"])
       (simp add: populate_openai_chat_completions_output_json_rows)
qed

theorem system_role_precedes_user_role_witness:
  "JStr ''q'' \<in> set [JStr ''q''] \<and> JStr ''q'' \<in> set [JStr ''q'', JStr ''r''] \<and> truthy (JStr ''hi'')
   \<and> create_new_openai_chat_completions_message ''q'' [JStr ''q''] [JStr ''q'', JStr ''r''] (JStr ''hi'') =
     JObj [(''role'', JStr ''system''), (''content'', JStr ''hi'')]
   \<and> populate_openai_chat_completions_output_json
       (generic_dataset None [JObj [(''r'', JStr ''x''), (''q'', JStr ''hi''), (''z'', JStr ''y'')]])
       [JStr ''q''] [JStr ''q'', JStr ''r''] False False [] =
     Inr (payload_collection [JObj [(''payload'', JArr [JObj [(''messages'', JArr
       [JObj [(''role'', JStr ''user''), (''content'', JStr ''x'')],
        JObj [(''role'', JStr ''system''), (''content'', JStr ''hi'')]])]])]])"
  using system_role_precedes_user_role [of "''q''" "[JStr ''q'']" "[JStr ''q'', JStr ''r'']"
      "JStr ''hi''" 0 "[[(''r'', JStr ''x''), (''q'', JStr ''hi''), (''z'', JStr ''y'')]]"
      "[(''r'', JStr ''x'')]" "[(''z'', JStr ''y'')]" None False False "[]"]
  by (simp add: populate_openai_chat_completions_output_json_rows [of None
        "[[(''r'', JStr ''x''), (''q'', JStr ''hi''), (''z'', JStr ''y'')]]", simplified]
      openai_chat_completions_row_payload_def row_messages_def optional_tags_def)

end
